theory Spec2Isabelle
  imports
    Complex_Main
    "HOL-Library.AList"
    "HOL-Library.Extended_Nat"
    "HOL-Library.Sublist"
    "HOL-Library.Char_ord"
    "HOL-Library.List_Lexorder"
begin

section \<open>JavaScript values, as the service sees them at run time\<close>

text \<open>
  The TypeScript interfaces of \<^verbatim>\<open>OpenAIService.ts\<close> are erased at run time: what
  \<^verbatim>\<open>JSON.parse\<close> hands to the validation code is an arbitrary JSON value. The
  model keeps that: a \<open>jsval\<close> is \<^verbatim>\<open>undefined\<close> or a JSON value, an object is
  the list of its own properties in insertion order.

  Strings are lists of code units below 256 (Isabelle's \<open>char\<close>); a number is
  abstracted to an integer, since the code only ever tests a number for being zero.
\<close>

datatype jsval =
    JUndefined
  | JNull
  | JBool bool
  | JNum int
  | JStr string
  | JArr "jsval list"
  | JObj "(string \<times> jsval) list"

text \<open>What a \<^verbatim>\<open>throw\<close> carries: the two built-in errors the code can meet, and
  \<^verbatim>\<open>new Error(message)\<close>.\<close>

datatype js_error = TypeError | SyntaxError | Error string

text \<open>\<^verbatim>\<open>!v\<close> is \<open>\<not> truthy v\<close>: the falsy values are \<^verbatim>\<open>undefined\<close>,
  \<^verbatim>\<open>null\<close>, \<^verbatim>\<open>false\<close>, \<^verbatim>\<open>0\<close> and the empty string.\<close>

fun truthy :: "jsval \<Rightarrow> bool" where
  "truthy JUndefined = False"
| "truthy JNull = False"
| "truthy (JBool b) = b"
| "truthy (JNum n) = (n \<noteq> 0)"
| "truthy (JStr s) = (s \<noteq> [])"
| "truthy (JArr xs) = True"
| "truthy (JObj ps) = True"

text \<open>A property read \<^verbatim>\<open>v.k\<close>, for the keys the service reads (\<^verbatim>\<open>recipes\<close>,
  \<^verbatim>\<open>name\<close>, \<^verbatim>\<open>glass\<close>, \<^verbatim>\<open>ingredients\<close>, \<^verbatim>\<open>instructions\<close>: no prototype
  defines any of them). Reading a property of \<^verbatim>\<open>undefined\<close> or \<^verbatim>\<open>null\<close> throws
  a TypeError; a missing property reads as \<^verbatim>\<open>undefined\<close>.\<close>

fun getProp :: "jsval \<Rightarrow> string \<Rightarrow> js_error + jsval" where
  "getProp JUndefined k = Inl TypeError"
| "getProp JNull k = Inl TypeError"
| "getProp (JObj ps) k = Inr (case map_of ps k of None \<Rightarrow> JUndefined | Some v \<Rightarrow> v)"
| "getProp v k = Inr JUndefined"

text \<open>A property write \<^verbatim>\<open>v.k = x\<close> (and the object spread \<^verbatim>\<open>{...v, k: x}\<close>) on an
  object: an existing property keeps its place. The service only writes to values that
  passed the four-field check, which are objects (lemma \<open>allFields_is_object\<close> below);
  on anything else the model raises the TypeError of a module in strict mode.\<close>

fun setProp :: "jsval \<Rightarrow> string \<Rightarrow> jsval \<Rightarrow> js_error + jsval" where
  "setProp (JObj ps) k x = Inr (JObj (AList.update k x ps))"
| "setProp v k x = Inl TypeError"

text \<open>\<^verbatim>\<open>Array.isArray(v)\<close> and the read \<^verbatim>\<open>v[0]\<close> of an array (\<^verbatim>\<open>undefined\<close> when
  the array is empty).\<close>

fun isArray :: "jsval \<Rightarrow> bool" where
  "isArray (JArr xs) = True"
| "isArray v = False"

fun elems :: "jsval \<Rightarrow> jsval list" where
  "elems (JArr xs) = xs"
| "elems v = []"

fun first :: "jsval list \<Rightarrow> jsval" where
  "first [] = JUndefined"
| "first (x # xs) = x"

text \<open>\<^verbatim>\<open>Array.prototype.join\<close> on an array of strings.\<close>

fun join :: "string \<Rightarrow> string list \<Rightarrow> string" where
  "join sep [] = []"
| "join sep [x] = x"
| "join sep (x # y # ys) = x @ sep @ join sep (y # ys)"

section \<open>The data model\<close>

record RecipeSuggestion =
  name :: string
  glass :: string
  ingredients :: string
  instructions :: string

record Ingredient =
  ing_id :: int
  ing_name :: string
  ing_category :: string
  ing_quantity :: int
  ing_dateAdded :: string

text \<open>\<open>RecipeData\<close> is \<^verbatim>\<open>Omit<Recipe, 'id'>\<close>, what \<^verbatim>\<open>addRecipe\<close> takes; a
  \<open>Recipe\<close> is a stored row, with the key the store gave it.\<close>

record RecipeData =
  recipe_name :: string
  recipe_ingredients :: string
  recipe_instructions :: string
  recipe_glass :: string
  recipe_source :: string
  recipe_dateAdded :: string

record Recipe = RecipeData +
  recipe_id :: int

text \<open>A typed suggestion as the object literal the source writes, properties in the
  order of the literal.\<close>

definition toJs :: "RecipeSuggestion \<Rightarrow> jsval" where
  "toJs r = JObj [(''name'', JStr (name r)), (''glass'', JStr (glass r)),
     (''ingredients'', JStr (ingredients r)), (''instructions'', JStr (instructions r))]"

section \<open>The service: configuration\<close>

definition OPENAI_API_KEY :: string where
  "OPENAI_API_KEY = ''//''"

record OpenAIServiceClass =
  apiKey :: string
  isConfigured :: bool

text \<open>The constructor, with the module constant as its parameter.\<close>

definition newOpenAIService :: "string \<Rightarrow> OpenAIServiceClass" where
  "newOpenAIService key = \<lparr>apiKey = key, isConfigured = (key = ''//'' \<and> length key > 0)\<rparr>"

definition OpenAIService :: OpenAIServiceClass where
  "OpenAIService = newOpenAIService OPENAI_API_KEY"

definition setApiKey :: "string \<Rightarrow> OpenAIServiceClass \<Rightarrow> OpenAIServiceClass" where
  "setApiKey key svc = svc\<lparr>apiKey := key, isConfigured := (length key > 0)\<rparr>"

definition isApiConfigured :: "OpenAIServiceClass \<Rightarrow> bool" where
  "isApiConfigured svc = isConfigured svc"

section \<open>The fallback library\<close>

text \<open>The source writes the line breaks of a recipe text as \<^verbatim>\<open>\n\<close> inside one string
  literal; here the lines are listed and joined by the line feed. The two letters
  outside ASCII are the code units 0xE8 and 0xFA.\<close>

definition withNewlines :: "string list \<Rightarrow> string" where
  "withNewlines ls = join [CHR 0x0A] ls"

definition classicNegroni :: RecipeSuggestion where
  "classicNegroni = \<lparr>
     name = ''Classic Negroni'',
     glass = ''rocks'',
     ingredients = withNewlines
       [''30ml Gin'',
        ''30ml Campari'',
        ''30ml Sweet Vermouth'',
        ''Orange peel for garnish''],
     instructions = withNewlines
       [''1. Add all spirits to a mixing glass with ice'',
        ''2. Stir for 30 seconds to achieve proper dilution'',
        ''3. Strain over fresh ice in a rocks glass'',
        ''4. Express orange peel oils over the surface'',
        ''5. Garnish with the orange peel'']\<rparr>"

definition oldFashioned :: RecipeSuggestion where
  "oldFashioned = \<lparr>
     name = ''Old Fashioned'',
     glass = ''rocks'',
     ingredients = withNewlines
       [''60ml Bourbon Whiskey'',
        ''1 sugar cube (or 5ml simple syrup)'',
        ''2-3 dashes Angostura bitters'',
        ''Orange peel'',
        ''Luxardo cherry (optional)''],
     instructions = withNewlines
       [''1. Muddle sugar cube with bitters and a splash of water'',
        ''2. Add bourbon and large ice cube'',
        ''3. Stir gently for 20-30 seconds'',
        ''4. Express orange peel over the drink'',
        ''5. Garnish with orange peel and cherry'']\<rparr>"

definition classicMargarita :: RecipeSuggestion where
  "classicMargarita = \<lparr>
     name = ''Classic Margarita'',
     glass = ''coupe'',
     ingredients = withNewlines
       [''50ml Tequila (Blanco)'',
        ''25ml Cointreau or Triple Sec'',
        ''25ml Fresh lime juice'',
        ''Salt for rim'',
        ''Lime wheel for garnish''],
     instructions = withNewlines
       [''1. Run lime wedge around rim of glass and dip in salt'',
        ''2. Add all ingredients to a shaker with ice'',
        ''3. Shake vigorously for 15 seconds'',
        ''4. Strain into prepared coupe glass'',
        ''5. Garnish with lime wheel'']\<rparr>"

definition mojito :: RecipeSuggestion where
  "mojito = \<lparr>
     name = ''Mojito'',
     glass = ''highball'',
     ingredients = withNewlines
       [''50ml White Rum'',
        ''25ml Fresh lime juice'',
        ''15ml Simple syrup'',
        ''8-10 fresh mint leaves'',
        ''Soda water'',
        ''Mint sprig and lime wheel for garnish''],
     instructions = withNewlines
       [''1. Gently muddle mint leaves with simple syrup'',
        ''2. Add lime juice and rum'',
        ''3. Fill glass with crushed ice'',
        ''4. Stir well to combine'',
        ''5. Top with soda water'',
        ''6. Garnish with mint sprig and lime wheel'']\<rparr>"

definition whiskeySour :: RecipeSuggestion where
  "whiskeySour = \<lparr>
     name = ''Whiskey Sour'',
     glass = ''coupe'',
     ingredients = withNewlines
       [''60ml Bourbon Whiskey'',
        ''30ml Fresh lemon juice'',
        ''22ml Simple syrup'',
        ''1 Egg white (optional)'',
        ''3 drops Angostura bitters'',
        ''Lemon wheel and cherry for garnish''],
     instructions = withNewlines
       [''1. If using egg white, dry shake all ingredients first (no ice)'',
        ''2. Add ice and shake vigorously for 15 seconds'',
        ''3. Double strain into chilled coupe glass'',
        ''4. If using egg white, float bitters on foam and draw pattern with toothpick'',
        ''5. Garnish with lemon wheel and cherry'']\<rparr>"

definition aviationCocktail :: RecipeSuggestion where
  "aviationCocktail = \<lparr>
     name = ''Aviation Cocktail'',
     glass = ''coupe'',
     ingredients = withNewlines
       [''60ml Gin'',
        ''15ml Maraschino Liqueur'',
        ''10ml Cr'' @ [CHR 0xE8] @ ''me de Violette'',
        ''22ml Fresh lemon juice'',
        ''Lemon twist for garnish''],
     instructions = withNewlines
       [''1. Add all ingredients to a shaker with ice'',
        ''2. Shake vigorously for 15 seconds'',
        ''3. Double strain into chilled coupe glass'',
        ''4. Express lemon twist oils over drink'',
        ''5. Garnish with the lemon twist'']\<rparr>"

definition moscowMule :: RecipeSuggestion where
  "moscowMule = \<lparr>
     name = ''Moscow Mule'',
     glass = ''highball'',
     ingredients = withNewlines
       [''50ml Vodka'',
        ''15ml Fresh lime juice'',
        ''120ml Ginger beer'',
        ''Lime wedge for garnish'',
        ''Mint sprig (optional)''],
     instructions = withNewlines
       [''1. Fill copper mug or highball glass with ice'',
        ''2. Add vodka and lime juice'',
        ''3. Top with ginger beer'',
        ''4. Stir gently to combine'',
        ''5. Garnish with lime wedge and mint sprig'']\<rparr>"

definition espressoMartini :: RecipeSuggestion where
  "espressoMartini = \<lparr>
     name = ''Espresso Martini'',
     glass = ''martini'',
     ingredients = withNewlines
       [''50ml Vodka'',
        ''30ml Fresh espresso (cooled)'',
        ''20ml Coffee liqueur (Kahl'' @ [CHR 0xFA] @ ''a)'',
        ''10ml Simple syrup'',
        ''3 coffee beans for garnish''],
     instructions = withNewlines
       [''1. Add all ingredients to a shaker with ice'',
        ''2. Shake vigorously for 20 seconds'',
        ''3. Double strain into chilled martini glass'',
        ''4. The foam should form naturally from shaking'',
        ''5. Garnish with 3 coffee beans on top'']\<rparr>"

definition recipes :: "RecipeSuggestion list" where
  "recipes = [classicNegroni, oldFashioned, classicMargarita, mojito, whiskeySour,
     aviationCocktail, moscowMule, espressoMartini]"

text \<open>\<^verbatim>\<open>xs[i]\<close> for a number \<open>i\<close> that is an integer: \<^verbatim>\<open>undefined\<close> out of range.\<close>

definition elementAt :: "jsval list \<Rightarrow> int \<Rightarrow> jsval" where
  "elementAt xs i = (if 0 \<le> i \<and> i < int (length xs) then xs ! nat i else JUndefined)"

text \<open>\<^verbatim>\<open>Math.random()\<close> reads a source of draws: \<open>rng k\<close> is the draw of the
  \<open>k\<close>-th call from now, and a call leaves the source \<open>rng \<circ> Suc\<close> behind. The
  language promises a draw \<open>r\<close> with \<open>0 \<le> r < 1\<close>; the theorems below that speak of
  the library assume exactly that of the source.\<close>

type_synonym random_source = "nat \<Rightarrow> rat"

definition unitDraws :: "random_source \<Rightarrow> bool" where
  "unitDraws rng = (\<forall>k. 0 \<le> rng k \<and> rng k < 1)"

definition getFallbackRecipe :: "random_source \<Rightarrow> jsval \<times> random_source" where
  "getFallbackRecipe rng =
     (elementAt (map toJs recipes) (\<lfloor>rng 0 * of_nat (length recipes)\<rfloor>), rng \<circ> Suc)"

function fallbackLoop :: "int \<Rightarrow> int \<Rightarrow> jsval list \<Rightarrow> random_source \<Rightarrow> jsval list \<times> random_source" where
  "fallbackLoop i count fallbackReturnRecipes rng =
     (if i < count
      then (case getFallbackRecipe rng of
              (recipe, rng') \<Rightarrow> fallbackLoop (i + 1) count (fallbackReturnRecipes @ [recipe]) rng')
      else (fallbackReturnRecipes, rng))"
  by pat_completeness auto
termination
  by (relation "measure (\<lambda>(i, count, acc, rng). nat (count - i))") auto

declare fallbackLoop.simps [simp del]

definition getMultipleFallbackRecipes :: "int \<Rightarrow> random_source \<Rightarrow> jsval list \<times> random_source" where
  "getMultipleFallbackRecipes count rng = fallbackLoop 0 count [] rng"

section \<open>Reading the user's message\<close>

text \<open>\<^verbatim>\<open>String.prototype.toLowerCase\<close> on code units below 256: the ASCII capitals
  and the Latin-1 capitals 0xC0 to 0xDE (but not the multiplication sign 0xD7) move up
  by 32.\<close>

definition toLowerCaseChar :: "char \<Rightarrow> char" where
  "toLowerCaseChar c =
     (let n = of_char c :: nat
      in if (65 \<le> n \<and> n \<le> 90) \<or> (192 \<le> n \<and> n \<le> 222 \<and> n \<noteq> 215)
         then char_of (n + 32) else c)"

definition toLowerCase :: "string \<Rightarrow> string" where
  "toLowerCase s = map toLowerCaseChar s"

text \<open>\<^verbatim>\<open>s.includes(k)\<close>: \<open>k\<close> occurs in \<open>s\<close> at some position.\<close>

fun includesStr :: "string \<Rightarrow> string \<Rightarrow> bool" where
  "includesStr [] k = (k = [])"
| "includesStr (c # cs) k = (prefix k (c # cs) \<or> includesStr cs k)"

text \<open>
  The pattern \<^verbatim>\<open>/(\d+)\s*(recipe|cocktail|drink|suggestion)/i\<close>, run as the
  backtracking matcher of the language runs it. At a start position the engine takes
  the longest run of digits for group 1 and gives digits back one by one when the rest
  fails; after the digits it takes the longest run of white space and gives that back
  one by one; then it tries the four words in order. The search moves the start
  position right until an attempt succeeds.

  \<^verbatim>\<open>\d\<close> is an ASCII digit. \<^verbatim>\<open>\s\<close> on code units below 256 is TAB, LF, VT, FF, CR,
  the space and the no-break space. Under the flag \<^verbatim>\<open>i\<close> two characters match when
  their canonical (upper-case) forms are equal, and a character outside ASCII never
  canonicalises to an ASCII letter; the words of the pattern are ASCII, so only the
  ASCII letters need their upper case here.
\<close>

definition isDigit :: "char \<Rightarrow> bool" where
  "isDigit c = (let n = of_char c :: nat in 48 \<le> n \<and> n \<le> 57)"

definition isSpace :: "char \<Rightarrow> bool" where
  "isSpace c = ((of_char c :: nat) \<in> {9, 10, 11, 12, 13, 32, 160})"

definition canonicalize :: "char \<Rightarrow> char" where
  "canonicalize c =
     (let n = of_char c :: nat in if 97 \<le> n \<and> n \<le> 122 then char_of (n - 32) else c)"

definition alternatives :: "string list" where
  "alternatives = [''recipe'', ''cocktail'', ''drink'', ''suggestion'']"

definition wordAt :: "string \<Rightarrow> string \<Rightarrow> bool" where
  "wordAt word s =
     (length word \<le> length s
      \<and> map canonicalize (take (length word) s) = map canonicalize word)"

definition keywordFollows :: "string \<Rightarrow> bool" where
  "keywordFollows rest =
     list_ex (\<lambda>w. list_ex (\<lambda>word. wordAt word (drop w rest)) alternatives)
       (rev [0..<Suc (length (takeWhile isSpace rest))])"

definition matchHere :: "string \<Rightarrow> string option" where
  "matchHere s =
     map_option (\<lambda>k. take k s)
       (find (\<lambda>k. keywordFollows (drop k s)) (rev [1..<Suc (length (takeWhile isDigit s))]))"

text \<open>\<^verbatim>\<open>userMessage.match(...)\<close>: \<open>None\<close> is \<^verbatim>\<open>null\<close>, \<open>Some d\<close> is a match whose
  group 1 is \<open>d\<close>.\<close>

fun numberMatch :: "string \<Rightarrow> string option" where
  "numberMatch [] = matchHere []"
| "numberMatch (c # cs) =
     (case matchHere (c # cs) of Some d \<Rightarrow> Some d | None \<Rightarrow> numberMatch cs)"

text \<open>
  \<^verbatim>\<open>parseInt\<close> of group 1, a run of decimal digits. The result is a Number, a
  double: the integer the digits write (\<open>decimalValue\<close>) rounded to the nearest double,
  to the even one of two equally near, and \<^verbatim>\<open>Infinity\<close> where the rounded value passes
  the largest double. Up to 2 to the power 53 every integer is a double; above, a double is a
  53-bit integer times a power of two. Such a Number is a natural number or infinite,
  an \<open>enat\<close>. (Past 20 significant digits the language lets an engine read the later
  digits as zeros before it rounds; the model rounds the integer as written.)
\<close>

definition decimalValue :: "string \<Rightarrow> nat" where
  "decimalValue ds = foldl (\<lambda>acc c. 10 * acc + (of_char c - 48)) 0 ds"

fun bitLength :: "nat \<Rightarrow> nat" where
  "bitLength n = (if n = 0 then 0 else Suc (bitLength (n div 2)))"

declare bitLength.simps [simp del]

definition toNumber :: "nat \<Rightarrow> enat" where
  "toNumber n =
     (if n < 2 ^ 53 then enat n
      else let e = bitLength n - 53;
               q = n div 2 ^ e;
               r = n mod 2 ^ e;
               m = (if 2 * r > 2 ^ e \<or> (2 * r = 2 ^ e \<and> odd q) then q + 1 else q)
           in if m * 2 ^ e < 2 ^ 1024 then enat (m * 2 ^ e) else \<infinity>)"

definition parseInt :: "string \<Rightarrow> enat" where
  "parseInt ds = toNumber (decimalValue ds)"

text \<open>The classification in \<^verbatim>\<open>generateCocktailRecipe\<close>.\<close>

definition multipleRecipeKeywords :: "string list" where
  "multipleRecipeKeywords = [''recipes'', ''suggestions'', ''options'', ''cocktails'',
     ''multiple'', ''few'', ''several'', ''some'']"

definition requestsMultiple :: "string \<Rightarrow> bool" where
  "requestsMultiple userMessage =
     list_ex (\<lambda>keyword. includesStr (toLowerCase userMessage) keyword) multipleRecipeKeywords"

definition requestedCount :: "string \<Rightarrow> enat" where
  "requestedCount userMessage =
     (case numberMatch userMessage of
        Some d \<Rightarrow> parseInt d
      | None \<Rightarrow> (if requestsMultiple userMessage then 3 else 1))"

text \<open>\<^verbatim>\<open>Math.min(Math.max(n, 1), 5)\<close>, the clamp both operations apply:
  \<open>clampCount\<close> on the integer count that \<^verbatim>\<open>generateMultipleRecipes\<close> is given,
  \<open>clampNumber\<close> on the count read from the message, which may be \<^verbatim>\<open>Infinity\<close>. What
  comes out is an integer from 1 to 5 in both.\<close>

definition clampCount :: "int \<Rightarrow> int" where
  "clampCount n = min (max n 1) 5"

definition clampNumber :: "enat \<Rightarrow> int" where
  "clampNumber x = int (the_enat (min (max x 1) 5))"

definition actualCount :: "string \<Rightarrow> int" where
  "actualCount userMessage = clampNumber (requestedCount userMessage)"

text \<open>The classification in \<^verbatim>\<open>handleSend\<close> of the chat screen, on the trimmed
  input: its own keyword list (without \<^verbatim>\<open>some\<close>), the default 0 instead of 1, and
  the choice of the operation to call. \<^verbatim>\<open>requestedCount || 3\<close> is 3 when the count
  is 0.\<close>

definition multipleKeywords :: "string list" where
  "multipleKeywords = [''recipes'', ''suggestions'', ''options'', ''cocktails'',
     ''multiple'', ''few'', ''several'']"

definition screenRequestsMultiple :: "string \<Rightarrow> bool" where
  "screenRequestsMultiple userMessage =
     list_ex (\<lambda>keyword. includesStr (toLowerCase userMessage) keyword) multipleKeywords"

definition screenRequestedCount :: "string \<Rightarrow> enat" where
  "screenRequestedCount userMessage =
     (case numberMatch userMessage of
        Some d \<Rightarrow> parseInt d
      | None \<Rightarrow> (if screenRequestsMultiple userMessage then 3 else 0))"

datatype route = ManyRecipes int | OneRecipe | ChatOnly

definition handleSendRoute :: "string \<Rightarrow> route" where
  "handleSendRoute userMessage =
     (let requestedCount = screenRequestedCount userMessage
      in if screenRequestsMultiple userMessage \<or> requestedCount > 1
         then ManyRecipes
                (int (the_enat (min (if requestedCount \<noteq> 0 then requestedCount else 3) 5)))
         else if includesStr (toLowerCase userMessage) ''recipe''
               \<or> includesStr (toLowerCase userMessage) ''make''
               \<or> includesStr (toLowerCase userMessage) ''suggest''
         then OneRecipe
         else ChatOnly)"

section \<open>The prompt\<close>

definition inventoryList :: "Ingredient list \<Rightarrow> string" where
  "inventoryList inventory =
     (if length inventory > 0
      then join '', '' (map (\<lambda>item. ing_name item @ '' ('' @ ing_category item @ '')'') inventory)
      else ''No inventory available'')"

text \<open>The listing as the specification words it: the entries \<^verbatim>\<open>name (category)\<close>,
  each one after the first preceded by a comma and a space; the marker for an empty
  inventory.\<close>

definition entry :: "Ingredient \<Rightarrow> string" where
  "entry item = ing_name item @ '' ('' @ ing_category item @ '')''"

fun commaJoined :: "Ingredient list \<Rightarrow> string" where
  "commaJoined [] = []"
| "commaJoined (item # items) = entry item @ concat (map (\<lambda>i. '', '' @ entry i) items)"

definition noInventoryMarker :: string where
  "noInventoryMarker = ''No inventory available''"

text \<open>A number in a template literal: the decimal digits of an integer.\<close>

fun natToString :: "nat \<Rightarrow> string" where
  "natToString n =
     (if n < 10 then [char_of (48 + n)] else natToString (n div 10) @ [char_of (48 + n mod 10)])"

declare natToString.simps [simp del]

definition numberToString :: "int \<Rightarrow> string" where
  "numberToString i = (if i < 0 then ''-'' @ natToString (nat (- i)) else natToString (nat i))"

text \<open>The three templates of the system prompt, with the count \<open>n\<close> and the
  inventory listing they interpolate as parameters.\<close>

definition multiplePrompt :: "int \<Rightarrow> string \<Rightarrow> string" where
  \<open>multiplePrompt n listing = withNewlines
     [''You are an expert mixologist and cocktail creator. Create '' @ numberToString n @ '' different cocktail recipes based on the user's request.'',
      '''',
      ''Available ingredients in their bar: '' @ listing,
      '''',
      ''IMPORTANT: You must respond with ONLY a valid JSON object with an array of recipes in this exact format:'',
      ''{'',
      ''  "recipes": ['',
      ''    {'',
      ''      "name": "Cocktail Name 1",'',
      ''      "glass": "rocks|highball|coupe|martini|wine|shot",'',
      ''      "ingredients": "Detailed ingredient list with exact measurements",'',
      ''      "instructions": "Step-by-step preparation instructions"'',
      ''    },'',
      ''    {'',
      ''      "name": "Cocktail Name 2",'',
      ''      "glass": "rocks|highball|coupe|martini|wine|shot",'',
      ''      "ingredients": "Detailed ingredient list with exact measurements",'',
      ''      "instructions": "Step-by-step preparation instructions"'',
      ''    }'',
      ''  ]'',
      ''}'',
      '''',
      ''Provide '' @ numberToString n @ '' different recipes. Use ingredients from their inventory when possible.'',
      ''Make sure each glass type is one of: rocks, highball, coupe, martini, wine, or shot.'']\<close>

definition singlePrompt :: "string \<Rightarrow> string" where
  \<open>singlePrompt listing = withNewlines
     [''You are an expert mixologist and cocktail creator. Create a detailed cocktail recipe based on the user's request.'',
      '''',
      ''Available ingredients in their bar: '' @ listing,
      '''',
      ''IMPORTANT: You must respond with ONLY a valid JSON object in this exact format:'',
      ''{'',
      ''  "name": "Cocktail Name",'',
      ''  "glass": "rocks|highball|coupe|martini|wine|shot",'',
      ''  "ingredients": "Detailed ingredient list with exact measurements (e.g., 60ml Gin, 30ml Vermouth, etc.)",'',
      ''  "instructions": "Step-by-step preparation instructions"'',
      ''}'',
      '''',
      ''Use ingredients from their inventory when possible, but you can suggest alternatives if needed.'',
      ''Make sure the glass type is one of: rocks, highball, coupe, martini, wine, or shot.'']\<close>

definition diversePrompt :: "int \<Rightarrow> string \<Rightarrow> string" where
  \<open>diversePrompt n listing = withNewlines
     [''You are an expert mixologist and cocktail creator. Create '' @ numberToString n @ '' different and diverse cocktail recipes based on the user's request.'',
      '''',
      ''Available ingredients in their bar: '' @ listing,
      '''',
      ''IMPORTANT: You must respond with ONLY a valid JSON object with an array of recipes in this exact format:'',
      ''{'',
      ''  "recipes": ['',
      ''    {'',
      ''      "name": "Cocktail Name 1",'',
      ''      "glass": "rocks|highball|coupe|martini|wine|shot",'',
      ''      "ingredients": "Detailed ingredient list with exact measurements",'',
      ''      "instructions": "Step-by-step preparation instructions"'',
      ''    }'',
      ''  ]'',
      ''}'',
      '''',
      ''Provide '' @ numberToString n @ '' DIFFERENT recipes with variety in spirits, flavors, and styles.'',
      ''Use ingredients from their inventory when possible.'',
      ''Make sure each glass type is one of: rocks, highball, coupe, martini, wine, or shot.'']\<close>

text \<open>The request body the service posts; the completion endpoint is a parameter of the
  operations, a function from the request to what came of the call.\<close>

record request =
  model :: string
  systemContent :: string
  userContent :: string
  temperature :: rat
  max_tokens :: nat
  bearer :: string

datatype call_outcome =
    NetworkError
  | HttpError nat
  | BodyError js_error
  | ContentUnparsable
  | ContentParsed jsval

text \<open>
  \<^item> \<open>NetworkError\<close>: \<^verbatim>\<open>fetch\<close> rejected.
  \<^item> \<open>HttpError status\<close>: \<^verbatim>\<open>response.ok\<close> is false.
  \<^item> \<open>BodyError e\<close>: \<^verbatim>\<open>response.json()\<close> rejected, or reading
    \<^verbatim>\<open>data.choices[0].message.content\<close> threw; \<open>e\<close> is what was thrown.
  \<^item> \<open>ContentUnparsable\<close>: \<^verbatim>\<open>JSON.parse(content)\<close> threw.
  \<^item> \<open>ContentParsed v\<close>: \<^verbatim>\<open>JSON.parse(content)\<close> returned \<open>v\<close>.
\<close>

definition cocktailRequest :: "OpenAIServiceClass \<Rightarrow> string \<Rightarrow> Ingredient list \<Rightarrow> request" where
  "cocktailRequest svc userMessage inventory =
     \<lparr>model = ''gpt-4o-mini'',
      systemContent =
        (if requestsMultiple userMessage \<or> actualCount userMessage > 1
         then multiplePrompt (actualCount userMessage) (inventoryList inventory)
         else singlePrompt (inventoryList inventory)),
      userContent = userMessage,
      temperature = 8 / 10,
      max_tokens = (if requestsMultiple userMessage then 1200 else 600),
      bearer = apiKey svc\<rparr>"

definition multipleRequest ::
  "OpenAIServiceClass \<Rightarrow> string \<Rightarrow> Ingredient list \<Rightarrow> int \<Rightarrow> request" where
  "multipleRequest svc userMessage inventory count =
     \<lparr>model = ''gpt-4o-mini'',
      systemContent = diversePrompt (clampCount count) (inventoryList inventory),
      userContent = userMessage,
      temperature = 9 / 10,
      max_tokens = 1500,
      bearer = apiKey svc\<rparr>"

section \<open>Validating the response\<close>

definition validGlasses :: "string list" where
  "validGlasses = [''rocks'', ''highball'', ''coupe'', ''martini'', ''wine'', ''shot'']"

text \<open>\<^verbatim>\<open>validGlasses.includes(v)\<close>: only a string equals a string.\<close>

fun includesGlass :: "jsval \<Rightarrow> bool" where
  "includesGlass (JStr s) = (s \<in> set validGlasses)"
| "includesGlass v = False"

text \<open>Sequencing of steps that may throw.\<close>

definition bindE :: "js_error + 'a \<Rightarrow> ('a \<Rightarrow> js_error + 'b) \<Rightarrow> js_error + 'b" where
  "bindE m f = (case m of Inl e \<Rightarrow> Inl e | Inr x \<Rightarrow> f x)"

text \<open>The test \<^verbatim>\<open>!recipe.name || !recipe.glass || !recipe.ingredients ||
  !recipe.instructions\<close> of the single-recipe path, and the filter callback
  \<^verbatim>\<open>recipe.name && recipe.glass && recipe.ingredients && recipe.instructions\<close> of the
  multi-recipe path (its truthiness), each reading the properties left to right and
  stopping at the first that decides.\<close>

definition fieldMissing :: "jsval \<Rightarrow> js_error + bool" where
  "fieldMissing recipe =
     bindE (getProp recipe ''name'') (\<lambda>n. if \<not> truthy n then Inr True else
     bindE (getProp recipe ''glass'') (\<lambda>g. if \<not> truthy g then Inr True else
     bindE (getProp recipe ''ingredients'') (\<lambda>i. if \<not> truthy i then Inr True else
     bindE (getProp recipe ''instructions'') (\<lambda>s. Inr (\<not> truthy s)))))"

definition allFields :: "jsval \<Rightarrow> js_error + bool" where
  "allFields recipe =
     bindE (getProp recipe ''name'') (\<lambda>n. if \<not> truthy n then Inr False else
     bindE (getProp recipe ''glass'') (\<lambda>g. if \<not> truthy g then Inr False else
     bindE (getProp recipe ''ingredients'') (\<lambda>i. if \<not> truthy i then Inr False else
     bindE (getProp recipe ''instructions'') (\<lambda>s. Inr (truthy s)))))"

text \<open>The check and the glass repair that both branches of the single-recipe path
  apply to their candidate.\<close>

definition validateRecipe :: "jsval \<Rightarrow> js_error + jsval" where
  "validateRecipe recipe =
     bindE (fieldMissing recipe) (\<lambda>missing.
       if missing then Inl (Error ''Invalid recipe format'')
       else bindE (getProp recipe ''glass'') (\<lambda>g.
         if \<not> includesGlass g then setProp recipe ''glass'' (JStr ''rocks'')
         else Inr recipe))"

text \<open>The body of the inner \<^verbatim>\<open>try\<close> once \<^verbatim>\<open>JSON.parse\<close> has returned: a response
  with a \<^verbatim>\<open>recipes\<close> array gives its element 0 as the candidate, any other response
  is the candidate itself.\<close>

definition readRecipe :: "jsval \<Rightarrow> js_error + jsval" where
  "readRecipe parsed =
     bindE (getProp parsed ''recipes'') (\<lambda>rs.
       if truthy rs \<and> isArray rs then validateRecipe (first (elems rs))
       else validateRecipe parsed)"

text \<open>The body of the outer \<^verbatim>\<open>try\<close> of \<^verbatim>\<open>generateCocktailRecipe\<close>: what it returns
  or throws for each outcome of the call. The inner \<^verbatim>\<open>catch\<close> replaces every error of
  parsing and validation by one of its own.\<close>

definition cocktailAttempt :: "call_outcome \<Rightarrow> js_error + jsval" where
  "cocktailAttempt outcome =
     (case outcome of
        NetworkError \<Rightarrow> Inl TypeError
      | HttpError status \<Rightarrow> Inl (Error (''OpenAI API error: '' @ numberToString (int status)))
      | BodyError e \<Rightarrow> Inl e
      | ContentUnparsable \<Rightarrow> Inl (Error ''Failed to parse recipe from AI'')
      | ContentParsed parsed \<Rightarrow>
          (case readRecipe parsed of
             Inl parseError \<Rightarrow> Inl (Error ''Failed to parse recipe from AI'')
           | Inr recipe \<Rightarrow> Inr recipe))"

definition generateCocktailRecipe ::
  "OpenAIServiceClass \<Rightarrow> (request \<Rightarrow> call_outcome) \<Rightarrow> random_source \<Rightarrow> string
     \<Rightarrow> Ingredient list \<Rightarrow> jsval" where
  "generateCocktailRecipe svc api rng userMessage inventory =
     (if \<not> isConfigured svc then fst (getFallbackRecipe rng)
      else case cocktailAttempt (api (cocktailRequest svc userMessage inventory)) of
             Inl error \<Rightarrow> fst (getFallbackRecipe rng)
           | Inr recipe \<Rightarrow> recipe)"

text \<open>\<^verbatim>\<open>Array.prototype.filter\<close> and \<^verbatim>\<open>map\<close> with a callback that may throw: the
  first throw ends the traversal.\<close>

fun filterE :: "('a \<Rightarrow> js_error + bool) \<Rightarrow> 'a list \<Rightarrow> js_error + 'a list" where
  "filterE p [] = Inr []"
| "filterE p (x # xs) =
     bindE (p x) (\<lambda>keep. bindE (filterE p xs) (\<lambda>rest. Inr (if keep then x # rest else rest)))"

fun mapE :: "('a \<Rightarrow> js_error + 'b) \<Rightarrow> 'a list \<Rightarrow> js_error + 'b list" where
  "mapE f [] = Inr []"
| "mapE f (x # xs) = bindE (f x) (\<lambda>y. bindE (mapE f xs) (\<lambda>ys. Inr (y # ys)))"

text \<open>The map callback \<^verbatim>\<open>{...recipe, glass: validGlasses.includes(recipe.glass) ?
  recipe.glass : 'rocks'}\<close>.\<close>

definition cleanGlass :: "jsval \<Rightarrow> js_error + jsval" where
  "cleanGlass recipe =
     bindE (getProp recipe ''glass'') (\<lambda>g.
       setProp recipe ''glass'' (if includesGlass g then g else JStr ''rocks''))"

text \<open>The body of the \<^verbatim>\<open>try\<close> of \<^verbatim>\<open>generateMultipleRecipes\<close> up to
  \<^verbatim>\<open>validatedRecipes\<close>.\<close>

definition multipleAttempt :: "call_outcome \<Rightarrow> js_error + jsval list" where
  "multipleAttempt outcome =
     (case outcome of
        NetworkError \<Rightarrow> Inl TypeError
      | HttpError status \<Rightarrow> Inl (Error (''OpenAI API error: '' @ numberToString (int status)))
      | BodyError e \<Rightarrow> Inl e
      | ContentUnparsable \<Rightarrow> Inl SyntaxError
      | ContentParsed parsed \<Rightarrow>
          bindE (getProp parsed ''recipes'') (\<lambda>rs.
            if \<not> truthy rs \<or> \<not> isArray rs then Inl (Error ''Invalid recipes format'')
            else bindE (filterE allFields (elems rs)) (\<lambda>kept. mapE cleanGlass kept)))"

text \<open>\<^verbatim>\<open>generateMultipleRecipes(userMessage, inventory, count)\<close>; a call that leaves
  \<open>count\<close> out passes 3.\<close>

definition generateMultipleRecipes ::
  "OpenAIServiceClass \<Rightarrow> (request \<Rightarrow> call_outcome) \<Rightarrow> random_source \<Rightarrow> string
     \<Rightarrow> Ingredient list \<Rightarrow> int \<Rightarrow> jsval list" where
  "generateMultipleRecipes svc api rng userMessage inventory count =
     (if \<not> isConfigured svc then fst (getMultipleFallbackRecipes count rng)
      else case multipleAttempt (api (multipleRequest svc userMessage inventory count)) of
             Inl error \<Rightarrow> fst (getMultipleFallbackRecipes count rng)
           | Inr validatedRecipes \<Rightarrow>
               (if length validatedRecipes > 0 then validatedRecipes
                else fst (getMultipleFallbackRecipes count rng)))"

section \<open>The recipe store\<close>

text \<open>
  The table \<^verbatim>\<open>recipes\<close> of the embedded SQL store is the list of its rows in insertion
  order, with the counter of its \<^verbatim>\<open>AUTOINCREMENT\<close> key. \<^verbatim>\<open>INSERT\<close> appends a row under
  the next key; \<^verbatim>\<open>SELECT * ... ORDER BY dateAdded DESC\<close> returns the rows sorted by
  date, latest first, rows of one date in their insertion order (the order the
  store's stable sort gives; SQL itself leaves it open). The handle \<open>db\<close> is \<open>None\<close>
  until \<^verbatim>\<open>init\<close> has run; \<^verbatim>\<open>this.db!\<close> on the missing handle throws a TypeError.
\<close>

record database =
  recipesTable :: "Recipe list"
  recipesSeq :: int

record DatabaseServiceClass =
  db :: "database option"

definition init :: "database \<Rightarrow> DatabaseServiceClass \<Rightarrow> DatabaseServiceClass" where
  "init stored svc = svc\<lparr>db := Some stored\<rparr>"

definition addRecipe ::
  "DatabaseServiceClass \<Rightarrow> RecipeData \<Rightarrow> js_error + (int \<times> DatabaseServiceClass)" where
  "addRecipe svc recipe =
     (case db svc of
        None \<Rightarrow> Inl TypeError
      | Some d \<Rightarrow>
          (let lastInsertRowId = recipesSeq d + 1;
               row = RecipeData.extend recipe (Recipe.fields lastInsertRowId)
           in Inr (lastInsertRowId,
                svc\<lparr>db := Some (d\<lparr>recipesTable := recipesTable d @ [row],
                                    recipesSeq := lastInsertRowId\<rparr>)\<rparr>)))"

definition getAllRecipes :: "DatabaseServiceClass \<Rightarrow> js_error + Recipe list" where
  "getAllRecipes svc =
     (case db svc of
        None \<Rightarrow> Inl TypeError
      | Some d \<Rightarrow> Inr (rev (sort_key recipe_dateAdded (rev (recipesTable d)))))"

text \<open>The save action of the chat screen; \<open>currentDate\<close> is the day the clock shows,
  \<^verbatim>\<open>YYYY-MM-DD\<close>. It returns the notice it raises and the store.\<close>

datatype alert = Alert string string

definition handleSaveRecipe ::
  "RecipeSuggestion \<Rightarrow> string \<Rightarrow> DatabaseServiceClass \<Rightarrow> alert \<times> DatabaseServiceClass" where
  \<open>handleSaveRecipe recipe currentDate svc =
     (case addRecipe svc
             \<lparr>recipe_name = name recipe,
              recipe_ingredients = ingredients recipe,
              recipe_instructions = instructions recipe,
              recipe_glass = glass recipe,
              recipe_source = ''AI Generated'',
              recipe_dateAdded = currentDate\<rparr> of
        Inl error \<Rightarrow> (Alert ''Error'' ''Failed to save recipe'', svc)
      | Inr (rowid, svc') \<Rightarrow>
          (Alert ''Success'' (''"'' @ name recipe @ ''" saved to your collection''), svc'))\<close>

section \<open>The vocabulary of the specification\<close>

text \<open>These definitions follow the words of the specification, not the code; the
  theorems compare the code with them. A field is \<^emph>\<open>non-empty\<close> (\<open>present\<close>) when it can
  be read and is truthy; an entry passes the \<^emph>\<open>four-field completeness check\<close>
  (\<open>fourFields\<close>) when \<^verbatim>\<open>name\<close>, \<^verbatim>\<open>glass\<close>, \<^verbatim>\<open>ingredients\<close> and
  \<^verbatim>\<open>instructions\<close> are all present; the closed set of glass types has six members;
  \<open>rewritten\<close> is an entry with a glass outside the closed set replaced by
  \<^verbatim>\<open>rocks\<close> and everything else as it was.\<close>

definition present :: "jsval \<Rightarrow> string \<Rightarrow> bool" where
  "present r k = (case getProp r k of Inr v \<Rightarrow> truthy v | Inl e \<Rightarrow> False)"

definition fourFields :: "jsval \<Rightarrow> bool" where
  "fourFields r = (present r ''name'' \<and> present r ''glass'' \<and> present r ''ingredients''
     \<and> present r ''instructions'')"

definition closedGlassSet :: "jsval set" where
  "closedGlassSet = {JStr ''rocks'', JStr ''highball'', JStr ''coupe'', JStr ''martini'',
     JStr ''wine'', JStr ''shot''}"

definition glassOf :: "jsval \<Rightarrow> jsval" where
  "glassOf r = (case getProp r ''glass'' of Inr g \<Rightarrow> g | Inl e \<Rightarrow> JUndefined)"

fun rewritten :: "jsval \<Rightarrow> jsval" where
  "rewritten (JObj ps) =
     (if glassOf (JObj ps) \<in> closedGlassSet then JObj ps
      else JObj (AList.update ''glass'' (JStr ''rocks'') ps))"
| "rewritten v = v"

text \<open>The candidate of a single-recipe response is element 0 of its \<^verbatim>\<open>recipes\<close>
  array when it has one, the response itself otherwise. A call \<^emph>\<open>fails\<close> when its
  outcome is a network error, a status outside 2xx, a body or a content that does not
  parse, or a parsed content that does not pass validation: for one recipe, a candidate
  that is not complete; for several, no \<^verbatim>\<open>recipes\<close> array, no complete entry in it,
  or a \<^verbatim>\<open>null\<close> among its entries (reading a field of \<^verbatim>\<open>null\<close> throws).\<close>

definition candidateOf :: "jsval \<Rightarrow> jsval" where
  "candidateOf parsed =
     (case getProp parsed ''recipes'' of Inr (JArr rs) \<Rightarrow> first rs | _ \<Rightarrow> parsed)"

fun failsSingle :: "call_outcome \<Rightarrow> bool" where
  "failsSingle (ContentParsed parsed) = (\<not> fourFields (candidateOf parsed))"
| "failsSingle outcome = True"

fun failsMultiple :: "call_outcome \<Rightarrow> bool" where
  "failsMultiple (ContentParsed parsed) =
     (case getProp parsed ''recipes'' of
        Inr (JArr rs) \<Rightarrow> JNull \<in> set rs \<or> JUndefined \<in> set rs \<or> filter fourFields rs = []
      | _ \<Rightarrow> True)"
| "failsMultiple outcome = True"

text \<open>The numeric pattern of the specification, \<^verbatim>\<open><digits> (recipe|cocktail|drink|
  suggestion)\<close> without regard to case: \<open>patternMatch s ds\<close> says that the digits \<open>ds\<close>
  stand somewhere in \<open>s\<close>, followed by white space (or none) and one of the four
  words.\<close>

definition patternMatch :: "string \<Rightarrow> string \<Rightarrow> bool" where
  "patternMatch s ds =
     (\<exists>pre ws word post.
        s = pre @ ds @ ws @ word @ post
      \<and> ds \<noteq> [] \<and> list_all isDigit ds \<and> list_all isSpace ws
      \<and> map canonicalize word \<in> set (map (map canonicalize) alternatives))"

definition patternOccurs :: "string \<Rightarrow> bool" where
  "patternOccurs s = (\<exists>ds. patternMatch s ds)"

section \<open>Supporting lemmas\<close>

subsection \<open>The fallback library and the draws\<close>

lemma length_recipes: "length recipes = 8"
  by (simp add: recipes_def)

lemma unitDraws_tail: "unitDraws rng \<Longrightarrow> unitDraws (rng \<circ> Suc)"
  by (simp add: unitDraws_def)

lemma draw_index_in_range:
  assumes "0 \<le> r" "r < 1"
  shows "0 \<le> \<lfloor>r * of_nat n\<rfloor> \<and> (n > 0 \<longrightarrow> \<lfloor>r * of_nat n\<rfloor> < int n)"
proof -
  have a: "0 \<le> r * of_nat n" using assms by simp
  have "n > 0 \<Longrightarrow> r * of_nat n < of_nat n"
    using assms by simp
  then have "n > 0 \<Longrightarrow> \<lfloor>r * of_nat n\<rfloor> < int n"
    by (simp add: floor_less_iff)
  with a show ?thesis by simp
qed

lemma getFallbackRecipe_in_library:
  assumes "unitDraws rng"
  shows "fst (getFallbackRecipe rng) \<in> set (map toJs recipes)"
proof -
  let ?i = "\<lfloor>rng 0 * of_nat (length recipes)\<rfloor>"
  have r: "0 \<le> rng 0" "rng 0 < 1" using assms by (auto simp: unitDraws_def)
  have i: "0 \<le> ?i" "?i < int (length recipes)"
    using draw_index_in_range[OF r, of "length recipes"] by (simp_all add: length_recipes)
  then have n: "nat ?i < length (map toJs recipes)"
    by (simp only: length_map nat_less_iff)
  have "elementAt (map toJs recipes) ?i = map toJs recipes ! nat ?i"
    using i by (simp only: elementAt_def length_map) simp
  with n show ?thesis
    unfolding getFallbackRecipe_def by (metis fst_conv nth_mem)
qed

lemma snd_getFallbackRecipe: "snd (getFallbackRecipe rng) = rng \<circ> Suc"
  by (simp add: getFallbackRecipe_def)

lemma fallbackLoop_length:
  "length (fst (fallbackLoop i count acc rng)) = length acc + nat (count - i)"
proof (induction i count acc rng rule: fallbackLoop.induct)
  case (1 i count acc rng)
  show ?case
  proof (cases "i < count")
    case True
    obtain recipe rng' where g: "getFallbackRecipe rng = (recipe, rng')" by (cases "getFallbackRecipe rng")
    from True g 1[OF True g[symmetric]] show ?thesis
      by (subst fallbackLoop.simps) (simp add: nat_diff_distrib)
  next
    case False
    then show ?thesis by (subst fallbackLoop.simps) simp
  qed
qed

lemma fallbackLoop_in_library:
  "unitDraws rng \<Longrightarrow> set acc \<subseteq> set (map toJs recipes)
   \<Longrightarrow> set (fst (fallbackLoop i count acc rng)) \<subseteq> set (map toJs recipes)"
proof (induction i count acc rng rule: fallbackLoop.induct)
  case (1 i count acc rng)
  show ?case
  proof (cases "i < count")
    case True
    obtain recipe rng' where g: "getFallbackRecipe rng = (recipe, rng')" by (cases "getFallbackRecipe rng")
    have "recipe \<in> set (map toJs recipes)"
      using getFallbackRecipe_in_library[OF "1.prems"(1)] g by simp
    moreover have "unitDraws rng'"
      using unitDraws_tail[OF "1.prems"(1)] snd_getFallbackRecipe[of rng] g by simp
    ultimately have "set (fst (fallbackLoop (i + 1) count (acc @ [recipe]) rng')) \<subseteq> set (map toJs recipes)"
      using "1.IH"[OF True g[symmetric]] "1.prems"(2) by simp
    with True g show ?thesis by (subst fallbackLoop.simps) simp
  next
    case False
    with "1.prems" show ?thesis by (subst fallbackLoop.simps) simp
  qed
qed

subsection \<open>The completeness check and the glass repair\<close>

lemma includesGlass_closed: "includesGlass g = (g \<in> closedGlassSet)"
  by (cases g) (auto simp: closedGlassSet_def validGlasses_def)

lemma getProp_throws: "(getProp r k = Inl e) = ((r = JUndefined \<or> r = JNull) \<and> e = TypeError)"
  by (cases r) auto

lemma fourFields_object: "fourFields r \<Longrightarrow> \<exists>ps. r = JObj ps"
  by (cases r) (auto simp: fourFields_def present_def)

lemma allFields_null: "r = JNull \<or> r = JUndefined \<Longrightarrow> allFields r = Inl TypeError"
  by (auto simp: allFields_def bindE_def)

lemma fieldMissing_null: "r = JNull \<or> r = JUndefined \<Longrightarrow> fieldMissing r = Inl TypeError"
  by (auto simp: fieldMissing_def bindE_def)

lemma not_fourFields_null: "r = JNull \<or> r = JUndefined \<Longrightarrow> \<not> fourFields r"
  by (auto simp: fourFields_def present_def)

lemma allFields_value: "r \<noteq> JNull \<Longrightarrow> r \<noteq> JUndefined \<Longrightarrow> allFields r = Inr (fourFields r)"
  by (cases r) (auto simp: allFields_def bindE_def fourFields_def present_def)

lemma fieldMissing_value:
  "r \<noteq> JNull \<Longrightarrow> r \<noteq> JUndefined \<Longrightarrow> fieldMissing r = Inr (\<not> fourFields r)"
  by (cases r) (auto simp: fieldMissing_def bindE_def fourFields_def present_def)

lemma allFields_is_object: "allFields r = Inr True \<Longrightarrow> \<exists>ps. r = JObj ps"
  by (metis allFields_null allFields_value fourFields_object Inl_Inr_False sum.inject(2))

lemma update_same: "map_of ps k = Some v \<Longrightarrow> AList.update k v ps = ps"
  by (induction ps) (auto split: if_splits)

lemma validateRecipe_complete: "fourFields r \<Longrightarrow> validateRecipe r = Inr (rewritten r)"
proof -
  assume f: "fourFields r"
  then obtain ps where r: "r = JObj ps" using fourFields_object by blast
  have m: "fieldMissing r = Inr False"
    using f fieldMissing_value[of r] r by simp
  show ?thesis
    unfolding validateRecipe_def m
    by (simp add: bindE_def r glassOf_def includesGlass_closed)
qed

lemma validateRecipe_incomplete: "\<not> fourFields r \<Longrightarrow> \<exists>e. validateRecipe r = Inl e"
  by (cases "r = JNull \<or> r = JUndefined")
     (auto simp: validateRecipe_def bindE_def fieldMissing_null fieldMissing_value)

lemma cleanGlass_complete: "fourFields r \<Longrightarrow> cleanGlass r = Inr (rewritten r)"
proof -
  assume f: "fourFields r"
  then obtain ps where r: "r = JObj ps" using fourFields_object by blast
  from f r obtain g where g: "map_of ps ''glass'' = Some g"
    by (auto simp: fourFields_def present_def split: option.splits)
  show ?thesis
    by (simp add: cleanGlass_def bindE_def r g glassOf_def includesGlass_closed update_same)
qed

lemma glass_rewritten:
  "fourFields r \<Longrightarrow> glassOf (rewritten r) = (if glassOf r \<in> closedGlassSet then glassOf r else JStr ''rocks'')"
  by (cases r) (auto simp: glassOf_def update_conv' fourFields_def present_def)

lemma glass_rewritten_closed: "fourFields r \<Longrightarrow> glassOf (rewritten r) \<in> closedGlassSet"
  by (simp add: glass_rewritten) (simp add: closedGlassSet_def)

lemma other_props_rewritten: "k \<noteq> ''glass'' \<Longrightarrow> getProp (rewritten r) k = getProp r k"
  by (cases r) (auto simp: update_conv')

lemma fourFields_rewritten: "fourFields r \<Longrightarrow> fourFields (rewritten r)"
  by (cases r) (auto simp: fourFields_def present_def update_conv')

lemma filterE_allFields:
  "JNull \<notin> set rs \<Longrightarrow> JUndefined \<notin> set rs \<Longrightarrow> filterE allFields rs = Inr (filter fourFields rs)"
  by (induction rs) (auto simp: bindE_def allFields_value)

lemma filterE_allFields_null:
  "JNull \<in> set rs \<or> JUndefined \<in> set rs \<Longrightarrow> filterE allFields rs = Inl TypeError"
proof (induction rs)
  case Nil
  then show ?case by simp
next
  case (Cons r rs)
  show ?case
  proof (cases "r = JNull \<or> r = JUndefined")
    case True
    then show ?thesis by (simp add: bindE_def allFields_null)
  next
    case False
    with Cons show ?thesis by (auto simp: bindE_def allFields_value)
  qed
qed

lemma mapE_cleanGlass:
  "list_all fourFields rs \<Longrightarrow> mapE cleanGlass rs = Inr (map rewritten rs)"
  by (induction rs) (auto simp: bindE_def cleanGlass_complete)

subsection \<open>What the attempts return\<close>

lemma library_entries:
  "x \<in> set (map toJs recipes) \<Longrightarrow> fourFields x \<and> glassOf x \<in> closedGlassSet \<and> rewritten x = x"
  by (auto simp: recipes_def toJs_def fourFields_def present_def glassOf_def closedGlassSet_def
      classicNegroni_def oldFashioned_def classicMargarita_def mojito_def whiskeySour_def
      aviationCocktail_def moscowMule_def espressoMartini_def withNewlines_def)

lemma readRecipe_candidate: "readRecipe parsed =
   (if parsed = JNull \<or> parsed = JUndefined then Inl TypeError else validateRecipe (candidateOf parsed))"
proof (cases "parsed = JNull \<or> parsed = JUndefined")
  case True
  then show ?thesis by (auto simp: readRecipe_def bindE_def)
next
  case False
  then obtain v where v: "getProp parsed ''recipes'' = Inr v"
    by (cases parsed) auto
  show ?thesis using False v
    by (cases v) (auto simp: readRecipe_def bindE_def candidateOf_def)
qed

lemma cocktailAttempt_result:
  "cocktailAttempt outcome =
     (if failsSingle outcome then Inl (case outcome of NetworkError \<Rightarrow> TypeError
          | HttpError status \<Rightarrow> Error (''OpenAI API error: '' @ numberToString (int status))
          | BodyError e \<Rightarrow> e | _ \<Rightarrow> Error ''Failed to parse recipe from AI'')
      else Inr (rewritten (candidateOf (case outcome of ContentParsed parsed \<Rightarrow> parsed | _ \<Rightarrow> JNull))))"
proof (cases outcome)
  case (ContentParsed parsed)
  show ?thesis
  proof (cases "fourFields (candidateOf parsed)")
    case True
    then have "parsed \<noteq> JNull \<and> parsed \<noteq> JUndefined"
      by (auto simp: candidateOf_def not_fourFields_null)
    with True show ?thesis
      by (simp add: ContentParsed cocktailAttempt_def readRecipe_candidate validateRecipe_complete)
  next
    case False
    then obtain e where "validateRecipe (candidateOf parsed) = Inl e"
      using validateRecipe_incomplete by blast
    with False show ?thesis
      by (simp add: ContentParsed cocktailAttempt_def readRecipe_candidate)
  qed
qed (simp_all add: cocktailAttempt_def)

lemma multipleAttempt_parsed:
  assumes "getProp parsed ''recipes'' = Inr (JArr rs)"
  shows "multipleAttempt (ContentParsed parsed) =
     (if JNull \<in> set rs \<or> JUndefined \<in> set rs then Inl TypeError
      else Inr (map rewritten (filter fourFields rs)))"
proof (cases "JNull \<in> set rs \<or> JUndefined \<in> set rs")
  case True
  then show ?thesis
    by (simp add: multipleAttempt_def assms bindE_def filterE_allFields_null)
next
  case False
  have "list_all fourFields (filter fourFields rs)" by (simp add: list_all_iff)
  then have "mapE cleanGlass (filter fourFields rs) = Inr (map rewritten (filter fourFields rs))"
    by (rule mapE_cleanGlass)
  with False show ?thesis
    by (simp add: multipleAttempt_def assms bindE_def filterE_allFields)
qed

lemma multipleAttempt_not_array:
  assumes "\<And>rs. getProp parsed ''recipes'' \<noteq> Inr (JArr rs)"
  shows "\<exists>e. multipleAttempt (ContentParsed parsed) = Inl e"
proof (cases "getProp parsed ''recipes''")
  case (Inl e)
  then show ?thesis by (simp add: multipleAttempt_def bindE_def)
next
  case (Inr v)
  with assms show ?thesis by (cases v) (auto simp: multipleAttempt_def bindE_def)
qed

lemma multipleAttempt_fails:
  "failsMultiple outcome \<Longrightarrow>
     (\<exists>e. multipleAttempt outcome = Inl e) \<or> multipleAttempt outcome = Inr []"
proof (cases outcome)
  case (ContentParsed parsed)
  assume f: "failsMultiple outcome"
  show ?thesis
  proof (cases "\<exists>rs. getProp parsed ''recipes'' = Inr (JArr rs)")
    case True
    then obtain rs where rs: "getProp parsed ''recipes'' = Inr (JArr rs)" by blast
    with f ContentParsed show ?thesis
      by (auto simp: multipleAttempt_parsed[OF rs])
  next
    case False
    then show ?thesis using multipleAttempt_not_array[of parsed] ContentParsed by blast
  qed
qed (simp_all add: multipleAttempt_def)

lemma multipleAttempt_success:
  "multipleAttempt outcome = Inr validated \<Longrightarrow> list_all (\<lambda>r. glassOf r \<in> closedGlassSet) validated"
proof (cases outcome)
  case (ContentParsed parsed)
  assume a: "multipleAttempt outcome = Inr validated"
  show ?thesis
  proof (cases "\<exists>rs. getProp parsed ''recipes'' = Inr (JArr rs)")
    case True
    then obtain rs where rs: "getProp parsed ''recipes'' = Inr (JArr rs)" by blast
    with a ContentParsed have "validated = map rewritten (filter fourFields rs)"
      by (auto simp: multipleAttempt_parsed[OF rs] split: if_splits)
    then show ?thesis by (simp add: list_all_iff glass_rewritten_closed)
  next
    case False
    then show ?thesis using multipleAttempt_not_array[of parsed] ContentParsed a by auto
  qed
qed (simp_all add: multipleAttempt_def)

lemma fallbackSet_length: "int (length (fst (getMultipleFallbackRecipes n rng))) = max n 0"
  by (simp add: getMultipleFallbackRecipes_def fallbackLoop_length)

lemma fallbackSet_members:
  "unitDraws rng \<Longrightarrow> list_all (\<lambda>r. r \<in> set (map toJs recipes)) (fst (getMultipleFallbackRecipes n rng))"
  using fallbackLoop_in_library[of rng "[]" 0 n]
  by (auto simp: getMultipleFallbackRecipes_def list_all_iff)

lemma OpenAIService_configured: "isConfigured OpenAIService"
  by (simp add: OpenAIService_def newOpenAIService_def OPENAI_API_KEY_def)

lemma fallback_first: "fst (getFallbackRecipe (\<lambda>k. 0)) = toJs classicNegroni"
  by (simp add: getFallbackRecipe_def elementAt_def recipes_def)

lemma fallbackSet_unfold:
  "fst (getMultipleFallbackRecipes 0 rng) = []"
  "fst (getMultipleFallbackRecipes 1 rng) = [fst (getFallbackRecipe rng)]"
  "fst (getMultipleFallbackRecipes 2 rng) = [fst (getFallbackRecipe rng), fst (getFallbackRecipe (rng \<circ> Suc))]"
  by (simp_all add: getMultipleFallbackRecipes_def fallbackLoop.simps[of _ _ _ rng]
      fallbackLoop.simps[of _ _ _ "rng \<circ> Suc"] fallbackLoop.simps[of _ _ _ "rng \<circ> Suc \<circ> Suc"]
      getFallbackRecipe_def)

lemma includesStr_sublist: "includesStr s k = sublist k s"
  by (induction s) (auto simp: sublist_Cons_right)

lemma join_map_Cons:
  "join sep (map f (x # xs)) = f x @ concat (map (\<lambda>i. sep @ f i) xs)"
  by (induction xs arbitrary: x) auto

lemma line_in_join: "l \<in> set ls \<Longrightarrow> sublist l (join sep ls)"
proof (induction sep ls rule: join.induct)
  case (3 sep x y ys)
  show ?case
  proof (cases "l = x")
    case True
    then show ?thesis by simp
  next
    case False
    with 3 have "sublist l (join sep (y # ys))" by simp
    then have "sublist l ((x @ sep) @ join sep (y # ys))"
      by (meson sublist_append)
    then show ?thesis by simp
  qed
qed simp_all

lemma inventoryList_shape:
  "inventoryList inventory = (if inventory = [] then noInventoryMarker else commaJoined inventory)"
proof (cases inventory)
  case Nil
  then show ?thesis by (simp add: inventoryList_def noInventoryMarker_def)
next
  case (Cons item items)
  have "join '', '' (map entry (item # items)) = commaJoined (item # items)"
    by (simp only: join_map_Cons commaJoined.simps)
  then show ?thesis
    unfolding Cons inventoryList_def entry_def by simp
qed

subsection \<open>The pattern matcher and the keyword search\<close>

lemma of_char_canonicalize:
  "(of_char (canonicalize c) :: nat) =
     (if 97 \<le> (of_char c :: nat) \<and> (of_char c :: nat) \<le> 122 then of_char c - 32 else of_char c)"
proof -
  have "(of_char c :: nat) - 32 < 256"
    using nat_of_char_less_256[of c] by arith
  then show ?thesis by (simp add: canonicalize_def Let_def)
qed

lemma canonical_letter:
  assumes "canonicalize c = canonicalize l" and "97 \<le> (of_char l :: nat)" and "(of_char l :: nat) \<le> 122"
  shows "\<not> isDigit c \<and> \<not> isSpace c"
proof -
  have "(of_char (canonicalize c) :: nat) = of_char (canonicalize l)" using assms(1) by simp
  then have "(if 97 \<le> (of_char c :: nat) \<and> (of_char c :: nat) \<le> 122 then of_char c - 32 else of_char c)
      = (of_char l :: nat) - 32"
    using assms(2,3) by (simp only: of_char_canonicalize if_True simp_thms)
  with assms(2,3) have "65 \<le> (of_char c :: nat) \<and> (of_char c :: nat) \<le> 122"
    by (auto split: if_splits)
  then show ?thesis by (auto simp: isDigit_def isSpace_def Let_def)
qed

lemma space_not_digit: "isSpace c \<Longrightarrow> \<not> isDigit c"
  by (auto simp: isDigit_def isSpace_def Let_def)

lemma alternatives_first_letter:
  "word \<in> set alternatives \<Longrightarrow>
     word \<noteq> [] \<and> hd word \<in> {CHR ''r'', CHR ''c'', CHR ''d'', CHR ''s''}"
  unfolding alternatives_def by auto

lemma first_letter_code:
  "l \<in> {CHR ''r'', CHR ''c'', CHR ''d'', CHR ''s''} \<Longrightarrow>
     97 \<le> (of_char l :: nat) \<and> (of_char l :: nat) \<le> 122"
  by auto

lemma alternatives_head:
  assumes "word \<in> set alternatives"
  shows "\<exists>l ls. word = l # ls \<and> 97 \<le> (of_char l :: nat) \<and> (of_char l :: nat) \<le> 122"
proof -
  from alternatives_first_letter[OF assms] have w: "word = hd word # tl word"
    and l: "hd word \<in> {CHR ''r'', CHR ''c'', CHR ''d'', CHR ''s''}" by simp_all
  from first_letter_code[OF l] w show ?thesis by blast
qed

lemma wordAt_Cons:
  "wordAt (l # ls) s \<Longrightarrow> \<exists>c cs. s = c # cs \<and> canonicalize c = canonicalize l"
  by (cases s) (simp_all add: wordAt_def)

lemma wordAt_head:
  assumes "word \<in> set alternatives" and "wordAt word s"
  shows "s \<noteq> [] \<and> \<not> isDigit (hd s) \<and> \<not> isSpace (hd s)"
proof -
  from alternatives_head[OF assms(1)] obtain l ls where
    w: "word = l # ls" "97 \<le> (of_char l :: nat)" "(of_char l :: nat) \<le> 122"
    by blast
  from wordAt_Cons[OF assms(2)[unfolded w(1)]] obtain c cs where
    s: "s = c # cs" "canonicalize c = canonicalize l"
    by blast
  from canonical_letter[OF s(2) w(2,3)] s(1) show ?thesis by simp
qed

lemma take_of_takeWhile: "k \<le> length (takeWhile P s) \<Longrightarrow> list_all P (take k s)"
proof -
  assume k: "k \<le> length (takeWhile P s)"
  have "take k s = take k (takeWhile P s @ dropWhile P s)" by simp
  also have "\<dots> = take k (takeWhile P s)" using k by (simp del: takeWhile_dropWhile_id)
  finally have "set (take k s) \<subseteq> set (takeWhile P s)" by (simp add: set_take_subset)
  then show ?thesis by (auto simp: list_all_iff dest: set_takeWhileD)
qed

lemma set_countdown: "set (rev [a..<Suc b]) = {k. a \<le> k \<and> k \<le> b}"
  by (auto simp del: upt_Suc simp: less_Suc_eq_le)

lemma find_Some_member: "find P xs = Some x \<Longrightarrow> x \<in> set xs \<and> P x"
  by (induction xs) (auto split: if_splits)

lemma keywordFollows_iff:
  "keywordFollows rest =
     (\<exists>w word. w \<le> length (takeWhile isSpace rest) \<and> word \<in> set alternatives
        \<and> wordAt word (drop w rest))"
  unfolding keywordFollows_def list_ex_iff set_countdown by blast

lemma matchHere_Some:
  assumes "matchHere s = Some d"
  shows "\<exists>k. 1 \<le> k \<and> k \<le> length (takeWhile isDigit s) \<and> d = take k s
     \<and> keywordFollows (drop k s)"
proof -
  define ks where "ks = rev [1..<Suc (length (takeWhile isDigit s))]"
  from assms have "map_option (\<lambda>k. take k s) (find (\<lambda>k. keywordFollows (drop k s)) ks) = Some d"
    unfolding matchHere_def ks_def .
  then obtain k where k: "find (\<lambda>k. keywordFollows (drop k s)) ks = Some k" "d = take k s"
    by (cases "find (\<lambda>k. keywordFollows (drop k s)) ks") auto
  from find_Some_member[OF k(1)] have "keywordFollows (drop k s)" "k \<in> set ks"
    by blast+
  then have "keywordFollows (drop k s)" "1 \<le> k \<and> k \<le> length (takeWhile isDigit s)"
    unfolding ks_def set_countdown by blast+
  then show ?thesis using k(2) by blast
qed

lemma matchHere_sound: "matchHere s = Some d \<Longrightarrow> patternMatch s d"
proof -
  assume "matchHere s = Some d"
  then obtain k where k: "1 \<le> k" "k \<le> length (takeWhile isDigit s)" "d = take k s"
    "keywordFollows (drop k s)"
    using matchHere_Some by blast
  then obtain w word where w: "w \<le> length (takeWhile isSpace (drop k s))"
    "word \<in> set alternatives" "wordAt word (drop w (drop k s))"
    by (auto simp: keywordFollows_iff)
  let ?t = "drop w (drop k s)"
  have "length (takeWhile isDigit s) \<le> length s" by (rule length_takeWhile_le)
  with k have d: "d \<noteq> []" by auto
  have s: "s = [] @ d @ take w (drop k s) @ take (length word) ?t @ drop (length word) ?t"
    by (simp only: k(3) append_Nil append_take_drop_id)
  have "map canonicalize (take (length word) ?t) \<in> set (map (map canonicalize) alternatives)"
    using w(2,3) by (auto simp: wordAt_def)
  with s d take_of_takeWhile[OF k(2)] take_of_takeWhile[OF w(1)] k(3)
  show ?thesis unfolding patternMatch_def by blast
qed

lemma numberMatch_Some: "numberMatch s = Some d \<Longrightarrow> \<exists>pre t. s = pre @ t \<and> matchHere t = Some d"
proof (induction s)
  case Nil
  then show ?case by simp
next
  case (Cons c cs)
  show ?case
  proof (cases "matchHere (c # cs)")
    case None
    with Cons obtain pre t where "cs = pre @ t" "matchHere t = Some d" by auto
    then have "c # cs = (c # pre) @ t \<and> matchHere t = Some d" by simp
    then show ?thesis by blast
  next
    case (Some e)
    with Cons.prems have "c # cs = [] @ (c # cs) \<and> matchHere (c # cs) = Some d" by simp
    then show ?thesis by blast
  qed
qed

lemma numberMatch_sound: "numberMatch s = Some d \<Longrightarrow> patternMatch s d"
proof -
  assume "numberMatch s = Some d"
  then obtain pre t where t: "s = pre @ t" "matchHere t = Some d"
    using numberMatch_Some by blast
  from matchHere_sound[OF t(2)] obtain p ws word post where
    "t = p @ d @ ws @ word @ post" "d \<noteq> []" "list_all isDigit d" "list_all isSpace ws"
    "map canonicalize word \<in> set (map (map canonicalize) alternatives)"
    unfolding patternMatch_def by blast
  with t(1) have "s = (pre @ p) @ d @ ws @ word @ post" by simp
  with \<open>d \<noteq> []\<close> \<open>list_all isDigit d\<close> \<open>list_all isSpace ws\<close>
    \<open>map canonicalize word \<in> set (map (map canonicalize) alternatives)\<close>
  show ?thesis unfolding patternMatch_def by blast
qed

lemma takeWhile_none: "xs \<noteq> [] \<Longrightarrow> \<not> P (hd xs) \<Longrightarrow> takeWhile P xs = []"
  by (cases xs) auto

lemma matchHere_complete:
  assumes "ds \<noteq> []" "list_all isDigit ds" "list_all isSpace ws"
    and "word \<in> set alternatives" "map canonicalize word' = map canonicalize word"
  shows "matchHere (ds @ ws @ word' @ post) = Some ds"
proof -
  let ?s = "ds @ ws @ word' @ post"
  have len: "length word' = length word" using assms(5) by (metis length_map)
  have at: "wordAt word (word' @ post)"
    using assms(5) len by (simp add: wordAt_def)
  from wordAt_head[OF assms(4) at] have hd: "word' @ post \<noteq> []"
    "\<not> isDigit (hd (word' @ post))" "\<not> isSpace (hd (word' @ post))" by auto
  have sp: "takeWhile isSpace (ws @ word' @ post) = ws"
    using assms(3) takeWhile_none[of "word' @ post" isSpace, OF hd(1) hd(3)]
    by (simp add: list_all_iff)
  have "ws @ word' @ post \<noteq> []" using hd(1) by simp
  moreover have "\<not> isDigit (hd (ws @ word' @ post))"
    using hd(2) assms(3) space_not_digit by (cases ws) (auto simp: list_all_iff)
  ultimately have "takeWhile isDigit (ws @ word' @ post) = []" by (rule takeWhile_none)
  then have dg: "takeWhile isDigit ?s = ds"
    using assms(2) by (simp add: list_all_iff)
  have n: "length ds \<ge> 1" using assms(1) by (cases ds) auto
  have kf: "keywordFollows (ws @ word' @ post)"
    unfolding keywordFollows_iff sp using assms(4) at by (intro exI[of _ "length ws"] exI[of _ word]) simp
  have short: "\<not> keywordFollows (drop k ?s)" if "1 \<le> k" "k < length ds" for k
  proof
    assume "keywordFollows (drop k ?s)"
    then obtain w wd where w: "w \<le> length (takeWhile isSpace (drop k ?s))" "wd \<in> set alternatives"
      "wordAt wd (drop w (drop k ?s))" unfolding keywordFollows_iff by blast
    have dk: "drop k ?s = drop k ds @ ws @ word' @ post" "drop k ds \<noteq> []" using that by auto
    have "isDigit (hd (drop k ds))"
      using assms(2) dk(2) by (metis hd_in_set in_set_dropD list_all_iff)
    then have "\<not> isSpace (hd (drop k ?s))" using dk space_not_digit by (metis hd_append2)
    then have "takeWhile isSpace (drop k ?s) = []" using dk by (intro takeWhile_none) auto
    with w have "wordAt wd (drop k ?s)" by simp
    from wordAt_head[OF w(2) this] \<open>isDigit (hd (drop k ds))\<close> dk show False by (metis hd_append2)
  qed
  have "find (\<lambda>k. keywordFollows (drop k ?s)) (rev [1..<Suc (length ds)]) = Some (length ds)"
  proof -
    have "rev [1..<Suc (length ds)] = length ds # rev [1..<length ds]" using n by simp
    then show ?thesis using kf by simp
  qed
  then show ?thesis by (simp add: matchHere_def dg)
qed

lemma numberMatch_after_prefix:
  "matchHere t \<noteq> None \<Longrightarrow> numberMatch (pre @ t) \<noteq> None"
proof (induction pre)
  case Nil
  then show ?case by (cases t) auto
next
  case (Cons p ps)
  then show ?case by (cases "matchHere (p # ps @ t)") auto
qed

lemma numberMatch_complete: "patternMatch s ds \<Longrightarrow> numberMatch s \<noteq> None"
proof -
  assume "patternMatch s ds"
  then obtain pre ws word' post where s: "s = pre @ ds @ ws @ word' @ post"
    and c: "ds \<noteq> []" "list_all isDigit ds" "list_all isSpace ws"
      "map canonicalize word' \<in> set (map (map canonicalize) alternatives)"
    unfolding patternMatch_def by blast
  from c(4) obtain word where "word \<in> set alternatives"
    "map canonicalize word' = map canonicalize word" by auto
  from matchHere_complete[OF c(1-3) this] have "matchHere (ds @ ws @ word' @ post) \<noteq> None"
    by simp
  then show ?thesis unfolding s by (rule numberMatch_after_prefix)
qed

lemma numberMatch_occurs: "(numberMatch s \<noteq> None) = patternOccurs s"
  unfolding patternOccurs_def using numberMatch_sound numberMatch_complete by blast

lemma requestsMultiple_keyword:
  "requestsMultiple userMessage =
     (\<exists>keyword \<in> set multipleRecipeKeywords. sublist keyword (toLowerCase userMessage))"
  by (simp only: requestsMultiple_def list_ex_iff includesStr_sublist)

lemma clampCount_range: "1 \<le> clampCount n \<and> clampCount n \<le> 5"
  by (simp add: clampCount_def)

lemma two_margaritas_no_match: "numberMatch ''Give me 2 margarita cocktails'' = None"
  by code_simp

lemma two_margaritas_plural: "requestsMultiple ''Give me 2 margarita cocktails''"
  by code_simp

lemma two_margaritas_screen_plural: "screenRequestsMultiple ''Give me 2 margarita cocktails''"
  by code_simp

lemma numberToString_3: "numberToString 3 = ''3''"
  by code_simp

lemma diversePrompt_opening:
  "prefix (''You are an expert mixologist and cocktail creator. Create '' @ numberToString n
           @ '' different and diverse cocktail recipes'') (diversePrompt n listing)"
  unfolding diversePrompt_def withNewlines_def by (simp add: prefix_def)

lemma two_margaritas_route: "handleSendRoute ''Give me 2 margarita cocktails'' = ManyRecipes 3"
  by (simp add: handleSendRoute_def screenRequestedCount_def two_margaritas_no_match
      two_margaritas_screen_plural numeral_eq_enat zero_enat_def Let_def
      del: numberMatch.simps)

lemma two_margaritas_count: "requestedCount ''Give me 2 margarita cocktails'' = 3"
  by (simp add: requestedCount_def two_margaritas_no_match two_margaritas_plural
      del: numberMatch.simps)

lemma decimalValue_snoc:
  "decimalValue (ds @ [c]) = 10 * decimalValue ds + (of_char c - 48)"
  by (simp add: decimalValue_def)

lemma digit_char: "n < 10 \<Longrightarrow> (of_char (char_of (48 + n)) :: nat) = 48 + n"
proof -
  assume n: "n < 10"
  have "(of_char (char_of (48 + n)) :: nat) = (48 + n) mod 256" by (rule of_char_of)
  also have "\<dots> = 48 + n" using n by simp
  finally show ?thesis .
qed

lemma decimalValue_natToString: "decimalValue (natToString n) = n"
proof (induction n rule: natToString.induct)
  case (1 n)
  show ?case
  proof (cases "n < 10")
    case True
    then show ?thesis
      by (subst natToString.simps) (simp add: decimalValue_def digit_char)
  next
    case False
    have "n mod 10 < 10" by simp
    from digit_char[OF this] False 1 show ?thesis
      by (subst natToString.simps) (simp add: decimalValue_snoc)
  qed
qed

lemma parseInt_natToString: "n < 2 ^ 53 \<Longrightarrow> parseInt (natToString n) = enat n"
  by (simp add: parseInt_def decimalValue_natToString toNumber_def)

lemma bitLength_example: "bitLength 9007199254740993 = 54"
  by (simp add: bitLength.simps)

lemma parseInt_rounds: "parseInt ''9007199254740993'' = 9007199254740992"
  by (simp add: parseInt_def decimalValue_def toNumber_def bitLength_example Let_def
      numeral_eq_enat)

lemma clampNumber_range: "1 \<le> clampNumber x \<and> clampNumber x \<le> 5"
  by (cases x) (auto simp: clampNumber_def numeral_eq_enat one_enat_def min_def max_def)

lemma clampNumber_finite: "enat (nat (clampNumber x)) = min (max x 1) 5"
  by (cases x) (auto simp: clampNumber_def numeral_eq_enat one_enat_def min_def max_def)

lemma screen_count_range:
  assumes "handleSendRoute userMessage = ManyRecipes n"
  shows "1 \<le> n \<and> n \<le> 5"
proof -
  define c where "c = screenRequestedCount userMessage"
  from assms have n: "n = int (the_enat (min (if c \<noteq> 0 then c else 3) 5))"
    by (simp add: handleSendRoute_def Let_def c_def split: if_splits)
  show ?thesis
  proof (cases c)
    case (enat k)
    then show ?thesis
      unfolding n by (auto simp: numeral_eq_enat zero_enat_def min_def)
  next
    case infinity
    then show ?thesis unfolding n by (simp add: numeral_eq_enat)
  qed
qed

section \<open>Theorems\<close>

text \<open>C8. The service constructed with the built-in placeholder key \<^verbatim>\<open>'//'\<close> reports
  itself as configured: the constructor's test \<^verbatim>\<open>OPENAI_API_KEY == '//' &&
  OPENAI_API_KEY.length > 0\<close> is true of the placeholder, so \<^verbatim>\<open>isApiConfigured()\<close>
  returns true.\<close>

theorem placeholder_key_is_configured:
  "OPENAI_API_KEY = ''//'' \<and> isApiConfigured OpenAIService
   \<and> isApiConfigured (newOpenAIService key) = (key = ''//'')"
  by (auto simp: OPENAI_API_KEY_def OpenAIService_def newOpenAIService_def isApiConfigured_def)

text \<open>C9. For every integer \<open>n\<close>, \<^verbatim>\<open>getMultipleFallbackRecipes(n)\<close> returns exactly
  \<open>max(n, 0)\<close> recipes, each a member of the library of 8; for \<open>n \<le> 0\<close> it returns the
  empty list, and \<open>n\<close> is not clamped to the range from 1 to 5 (the length is
  \<open>max(n, 0)\<close> for every \<open>n\<close>, also above 5). The draws are assumed to lie in
  \<open>[0, 1)\<close>, as \<^verbatim>\<open>Math.random\<close> promises.\<close>

theorem fallback_accessor_length_and_members:
  assumes "unitDraws rng"
  shows "int (length (fst (getMultipleFallbackRecipes n rng))) = max n 0
     \<and> list_all (\<lambda>r. r \<in> set (map toJs recipes)) (fst (getMultipleFallbackRecipes n rng))
     \<and> length (map toJs recipes) = 8
     \<and> (n \<le> 0 \<longrightarrow> fst (getMultipleFallbackRecipes n rng) = [])"
  using fallbackSet_length[of n rng] fallbackSet_members[OF assms, of n]
  by (auto simp: length_recipes)

text \<open>Witness for C9: seven recipes for \<open>n = 7\<close>, none for \<open>n = -2\<close>, with every draw
  one half.\<close>

theorem fallback_accessor_length_and_members_witness:
  "unitDraws (\<lambda>k. 1 / 2)
   \<and> length (fst (getMultipleFallbackRecipes 7 (\<lambda>k. 1 / 2))) = 7
   \<and> list_all (\<lambda>r. r \<in> set (map toJs recipes)) (fst (getMultipleFallbackRecipes 7 (\<lambda>k. 1 / 2)))
   \<and> fst (getMultipleFallbackRecipes (- 2) (\<lambda>k. 1 / 2)) = []"
proof -
  have u: "unitDraws (\<lambda>k. 1 / 2)" by (simp add: unitDraws_def)
  show ?thesis using u fallback_accessor_length_and_members[OF u, of 7] fallback_accessor_length_and_members[OF u, of "- 2"] by simp
qed

text \<open>C4. Every suggestion that \<^verbatim>\<open>generateCocktailRecipe\<close> or
  \<^verbatim>\<open>generateMultipleRecipes\<close> returns, produced by the endpoint or taken from the
  library, has its glass in the set of six. A glass outside the set is rewritten, the
  recipe is not rejected for it: a complete candidate of a single-recipe response is
  what \<^verbatim>\<open>generateCocktailRecipe\<close> returns, rewritten, and the complete entries of a
  multi-recipe response (none of them \<^verbatim>\<open>null\<close>) are what
  \<^verbatim>\<open>generateMultipleRecipes\<close> returns, each rewritten; a rewritten recipe is the recipe
  with \<^verbatim>\<open>rocks\<close> for a glass outside the set, its glass kept when inside, and every
  other field as it was.\<close>

theorem surfaced_glass_in_closed_set:
  assumes "unitDraws rng"
  shows "glassOf (generateCocktailRecipe svc api rng userMessage inventory) \<in> closedGlassSet
     \<and> list_all (\<lambda>r. glassOf r \<in> closedGlassSet)
          (generateMultipleRecipes svc api rng userMessage inventory count)
     \<and> (isConfigured svc
          \<and> api (cocktailRequest svc userMessage inventory) = ContentParsed parsed
          \<and> fourFields (candidateOf parsed)
        \<longrightarrow> generateCocktailRecipe svc api rng userMessage inventory
              = rewritten (candidateOf parsed))
     \<and> (isConfigured svc
          \<and> api (multipleRequest svc userMessage inventory count) = ContentParsed response
          \<and> getProp response ''recipes'' = Inr (JArr rs)
          \<and> JNull \<notin> set rs \<and> JUndefined \<notin> set rs \<and> filter fourFields rs \<noteq> []
        \<longrightarrow> generateMultipleRecipes svc api rng userMessage inventory count
              = map rewritten (filter fourFields rs))
     \<and> (fourFields r \<longrightarrow>
          fourFields (rewritten r)
          \<and> glassOf (rewritten r)
              = (if glassOf r \<in> closedGlassSet then glassOf r else JStr ''rocks'')
          \<and> (\<forall>k. k \<noteq> ''glass'' \<longrightarrow> getProp (rewritten r) k = getProp r k)
          \<and> validateRecipe r = Inr (rewritten r) \<and> cleanGlass r = Inr (rewritten r))"
proof -
  have fb: "glassOf (fst (getFallbackRecipe rng)) \<in> closedGlassSet"
    using getFallbackRecipe_in_library[OF assms] library_entries by blast
  have fbs: "list_all (\<lambda>r. glassOf r \<in> closedGlassSet) (fst (getMultipleFallbackRecipes count rng))"
    using fallbackSet_members[OF assms, of count] library_entries by (auto simp: list_all_iff)
  have one: "glassOf (generateCocktailRecipe svc api rng userMessage inventory) \<in> closedGlassSet"
  proof (cases "isConfigured svc \<and> \<not> failsSingle (api (cocktailRequest svc userMessage inventory))")
    case True
    then obtain p where p: "api (cocktailRequest svc userMessage inventory) = ContentParsed p"
      "fourFields (candidateOf p)"
      by (cases "api (cocktailRequest svc userMessage inventory)") auto
    with True show ?thesis
      by (simp add: generateCocktailRecipe_def cocktailAttempt_result glass_rewritten_closed)
  next
    case False
    then show ?thesis using fb
      by (auto simp: generateCocktailRecipe_def cocktailAttempt_result)
  qed
  have many: "list_all (\<lambda>r. glassOf r \<in> closedGlassSet)
          (generateMultipleRecipes svc api rng userMessage inventory count)"
  proof (cases "multipleAttempt (api (multipleRequest svc userMessage inventory count))")
    case (Inl e)
    then show ?thesis using fbs by (simp add: generateMultipleRecipes_def)
  next
    case (Inr validated)
    then show ?thesis using fbs multipleAttempt_success[OF Inr]
      by (simp add: generateMultipleRecipes_def)
  qed
  have single: "isConfigured svc
          \<and> api (cocktailRequest svc userMessage inventory) = ContentParsed parsed
          \<and> fourFields (candidateOf parsed)
        \<longrightarrow> generateCocktailRecipe svc api rng userMessage inventory
              = rewritten (candidateOf parsed)"
    by (simp add: generateCocktailRecipe_def cocktailAttempt_result)
  have multi: "isConfigured svc
          \<and> api (multipleRequest svc userMessage inventory count) = ContentParsed response
          \<and> getProp response ''recipes'' = Inr (JArr rs)
          \<and> JNull \<notin> set rs \<and> JUndefined \<notin> set rs \<and> filter fourFields rs \<noteq> []
        \<longrightarrow> generateMultipleRecipes svc api rng userMessage inventory count
              = map rewritten (filter fourFields rs)"
    by (simp add: generateMultipleRecipes_def multipleAttempt_parsed)
  have repair: "fourFields r \<longrightarrow>
          fourFields (rewritten r)
          \<and> glassOf (rewritten r)
              = (if glassOf r \<in> closedGlassSet then glassOf r else JStr ''rocks'')
          \<and> (\<forall>k. k \<noteq> ''glass'' \<longrightarrow> getProp (rewritten r) k = getProp r k)
          \<and> validateRecipe r = Inr (rewritten r) \<and> cleanGlass r = Inr (rewritten r)"
    using fourFields_rewritten[of r] glass_rewritten[of r] other_props_rewritten[of _ r]
      validateRecipe_complete[of r] cleanGlass_complete[of r]
    by blast
  from one many single multi repair show ?thesis by (intro conjI)
qed

text \<open>Witness for C4: a response whose one recipe is served in a mug; both operations
  return that recipe served on the rocks, its other fields untouched.\<close>

theorem surfaced_glass_in_closed_set_witness:
  "unitDraws (\<lambda>k. 0) \<and> isConfigured OpenAIService
   \<and> fourFields (JObj [(''name'', JStr ''Mule''), (''glass'', JStr ''mug''),
        (''ingredients'', JStr ''Vodka''), (''instructions'', JStr ''Stir'')])
   \<and> generateCocktailRecipe OpenAIService
        (\<lambda>req. ContentParsed (JObj [(''recipes'', JArr
           [JObj [(''name'', JStr ''Mule''), (''glass'', JStr ''mug''),
                  (''ingredients'', JStr ''Vodka''), (''instructions'', JStr ''Stir'')]])]))
        (\<lambda>k. 0) ''make me a drink'' []
      = JObj [(''name'', JStr ''Mule''), (''glass'', JStr ''rocks''),
              (''ingredients'', JStr ''Vodka''), (''instructions'', JStr ''Stir'')]
   \<and> generateMultipleRecipes OpenAIService
        (\<lambda>req. ContentParsed (JObj [(''recipes'', JArr
           [JObj [(''name'', JStr ''Mule''), (''glass'', JStr ''mug''),
                  (''ingredients'', JStr ''Vodka''), (''instructions'', JStr ''Stir'')]])]))
        (\<lambda>k. 0) ''make me a drink'' [] 2
      = [JObj [(''name'', JStr ''Mule''), (''glass'', JStr ''rocks''),
               (''ingredients'', JStr ''Vodka''), (''instructions'', JStr ''Stir'')]]"
proof -
  have u: "unitDraws (\<lambda>k. 0)" by (simp add: unitDraws_def)
  show ?thesis
    using u surfaced_glass_in_closed_set[OF u, where svc = OpenAIService
      and userMessage = "''make me a drink''" and inventory = "[]" and count = 2
      and api = "\<lambda>req. ContentParsed (JObj [(''recipes'', JArr
           [JObj [(''name'', JStr ''Mule''), (''glass'', JStr ''mug''),
                  (''ingredients'', JStr ''Vodka''), (''instructions'', JStr ''Stir'')]])])"
      and parsed = "JObj [(''recipes'', JArr
           [JObj [(''name'', JStr ''Mule''), (''glass'', JStr ''mug''),
                  (''ingredients'', JStr ''Vodka''), (''instructions'', JStr ''Stir'')]])]"
      and response = "JObj [(''recipes'', JArr
           [JObj [(''name'', JStr ''Mule''), (''glass'', JStr ''mug''),
                  (''ingredients'', JStr ''Vodka''), (''instructions'', JStr ''Stir'')]])]"
      and rs = "[JObj [(''name'', JStr ''Mule''), (''glass'', JStr ''mug''),
                  (''ingredients'', JStr ''Vodka''), (''instructions'', JStr ''Stir'')]]"
      and r = "JObj [(''name'', JStr ''Mule''), (''glass'', JStr ''mug''),
                  (''ingredients'', JStr ''Vodka''), (''instructions'', JStr ''Stir'')]"]
    by (simp add: OpenAIService_configured fourFields_def present_def glassOf_def
        closedGlassSet_def candidateOf_def)
qed

text \<open>What a failed call returns: \<^verbatim>\<open>generateCocktailRecipe\<close> a recipe of the
  library, \<^verbatim>\<open>generateMultipleRecipes\<close> as many recipes of the library as the count it
  was given, none for a count below 1. The chat screen, the one caller, passes a count
  from 1 to 5, and then the list is as long as requested and not empty.\<close>

lemma failed_calls_fall_back:
  assumes "unitDraws rng"
  shows "(failsSingle (api (cocktailRequest svc userMessage inventory)) \<longrightarrow>
            generateCocktailRecipe svc api rng userMessage inventory \<in> set (map toJs recipes)
            \<and> fourFields (generateCocktailRecipe svc api rng userMessage inventory))
     \<and> (failsMultiple (api (multipleRequest svc userMessage inventory count)) \<longrightarrow>
            int (length (generateMultipleRecipes svc api rng userMessage inventory count)) = max count 0
            \<and> list_all (\<lambda>r. r \<in> set (map toJs recipes) \<and> fourFields r)
                 (generateMultipleRecipes svc api rng userMessage inventory count)
            \<and> (1 \<le> count \<longrightarrow> generateMultipleRecipes svc api rng userMessage inventory count \<noteq> []))"
proof -
  have fb: "fst (getFallbackRecipe rng) \<in> set (map toJs recipes)"
    using getFallbackRecipe_in_library[OF assms] .
  have one: "failsSingle (api (cocktailRequest svc userMessage inventory)) \<Longrightarrow>
      generateCocktailRecipe svc api rng userMessage inventory = fst (getFallbackRecipe rng)"
    by (simp add: generateCocktailRecipe_def cocktailAttempt_result)
  have many: "failsMultiple (api (multipleRequest svc userMessage inventory count)) \<Longrightarrow>
      generateMultipleRecipes svc api rng userMessage inventory count
        = fst (getMultipleFallbackRecipes count rng)"
    using multipleAttempt_fails[of "api (multipleRequest svc userMessage inventory count)"]
    by (auto simp: generateMultipleRecipes_def)
  have len: "int (length (fst (getMultipleFallbackRecipes count rng))) = max count 0"
    by (rule fallbackSet_length)
  have mem: "list_all (\<lambda>r. r \<in> set (map toJs recipes) \<and> fourFields r)
      (fst (getMultipleFallbackRecipes count rng))"
    using fallbackSet_members[OF assms, of count] library_entries by (auto simp: list_all_iff)
  have ne: "1 \<le> count \<Longrightarrow> fst (getMultipleFallbackRecipes count rng) \<noteq> []"
    using len by auto
  show ?thesis using fb one many len mem ne library_entries by auto
qed

lemma failed_screen_call_has_requested_length:
  assumes "unitDraws rng" and "handleSendRoute userMessage = ManyRecipes n"
    and "failsMultiple (api (multipleRequest svc userMessage inventory n))"
  shows "int (length (generateMultipleRecipes svc api rng userMessage inventory n)) = n
     \<and> generateMultipleRecipes svc api rng userMessage inventory n \<noteq> []
     \<and> list_all (\<lambda>r. r \<in> set (map toJs recipes) \<and> fourFields r)
          (generateMultipleRecipes svc api rng userMessage inventory n)"
  using failed_calls_fall_back[OF assms(1), of api svc userMessage inventory n]
    screen_count_range[OF assms(2)] assms(3)
  by simp


text \<open>C6. The filter keeps the entries whose four fields are all non-empty and drops
  the others, a number, a string or an empty object among them; but on a
  \<^verbatim>\<open>null\<close> entry the read \<^verbatim>\<open>recipe.name\<close> throws, and the call returns the fallback
  set although a complete entry stands in the array. Here the Mojito is complete:
  beside a \<^verbatim>\<open>null\<close> it is lost and the call returns the library's first recipe,
  beside the other incomplete entries it is kept.\<close>

theorem null_entry_discards_complete_entries:
  "fourFields (toJs mojito)
   \<and> generateMultipleRecipes OpenAIService
        (\<lambda>req. ContentParsed (JObj [(''recipes'', JArr [toJs mojito, JNull])]))
        (\<lambda>k. 0) ''two drinks'' [] 1
      = [toJs classicNegroni]
   \<and> toJs classicNegroni \<noteq> toJs mojito
   \<and> generateMultipleRecipes OpenAIService
        (\<lambda>req. ContentParsed (JObj [(''recipes'',
           JArr [toJs mojito, JNum 5, JStr ''x'', JObj []])]))
        (\<lambda>k. 0) ''two drinks'' [] 1
      = [toJs mojito]"
proof -
  have m: "toJs mojito \<in> set (map toJs recipes)" by (simp add: recipes_def)
  from library_entries[OF m] have c: "fourFields (toJs mojito)" "rewritten (toJs mojito) = toJs mojito"
    by simp_all
  have n: "\<not> fourFields (JNum 5)" "\<not> fourFields (JStr ''x'')" "\<not> fourFields (JObj [])"
    by (simp_all add: fourFields_def present_def)
  have d: "toJs classicNegroni \<noteq> toJs mojito"
    by (simp add: toJs_def mojito_def classicNegroni_def)
  have lost: "generateMultipleRecipes OpenAIService
        (\<lambda>req. ContentParsed (JObj [(''recipes'', JArr [toJs mojito, JNull])]))
        (\<lambda>k. 0) ''two drinks'' [] 1 = [toJs classicNegroni]"
    by (simp add: generateMultipleRecipes_def OpenAIService_configured multipleAttempt_parsed
        fallbackSet_unfold fallback_first)
  have kept: "generateMultipleRecipes OpenAIService
        (\<lambda>req. ContentParsed (JObj [(''recipes'',
           JArr [toJs mojito, JNum 5, JStr ''x'', JObj []])]))
        (\<lambda>k. 0) ''two drinks'' [] 1 = [toJs mojito]"
    using c n
    by (simp add: generateMultipleRecipes_def OpenAIService_configured multipleAttempt_parsed toJs_def)
  from c(1) lost d kept show ?thesis by (intro conjI)
qed

text \<open>C10. When the content of a \<^verbatim>\<open>generateCocktailRecipe\<close> call parses to an object
  with a \<^verbatim>\<open>recipes\<close> array, the result depends on the first element \<open>r\<close> alone: it is
  \<open>r\<close> validated when \<open>r\<close> passes the four-field check, and the fallback recipe (a recipe
  of the library, for draws in \<open>[0, 1)\<close>) when it does not, whatever the later elements
  \<open>later\<close> are, complete or not.\<close>

theorem single_path_validates_first_of_array:
  assumes "isConfigured svc"
    and "api (cocktailRequest svc userMessage inventory) = ContentParsed parsed"
    and "getProp parsed ''recipes'' = Inr (JArr (r # later))"
  shows "generateCocktailRecipe svc api rng userMessage inventory =
       (if fourFields r then rewritten r else fst (getFallbackRecipe rng))
     \<and> (unitDraws rng \<and> \<not> fourFields r \<longrightarrow>
          generateCocktailRecipe svc api rng userMessage inventory \<in> set (map toJs recipes))"
  using assms getFallbackRecipe_in_library[of rng]
  by (simp add: generateCocktailRecipe_def cocktailAttempt_result candidateOf_def)

text \<open>Witness for C10: the first element lacks two fields, the second is complete, and
  the call returns the library's first recipe.\<close>

theorem single_path_validates_first_of_array_witness:
  "isConfigured OpenAIService \<and> unitDraws (\<lambda>k. 0)
   \<and> fourFields (JObj [(''name'', JStr ''Mule''), (''glass'', JStr ''mug''),
                  (''ingredients'', JStr ''Vodka''), (''instructions'', JStr ''Stir'')])
   \<and> \<not> fourFields (JObj [(''name'', JStr ''Nameless''), (''glass'', JStr ''coupe'')])
   \<and> generateCocktailRecipe OpenAIService
        (\<lambda>req. ContentParsed (JObj [(''recipes'', JArr
           [JObj [(''name'', JStr ''Nameless''), (''glass'', JStr ''coupe'')],
            JObj [(''name'', JStr ''Mule''), (''glass'', JStr ''mug''),
                  (''ingredients'', JStr ''Vodka''), (''instructions'', JStr ''Stir'')]])]))
        (\<lambda>k. 0) ''make me a drink'' []
      = toJs classicNegroni
   \<and> toJs classicNegroni \<in> set (map toJs recipes)"
proof -
  have m: "toJs classicNegroni \<in> set (map toJs recipes)" by (simp add: recipes_def)
  show ?thesis
  using m single_path_validates_first_of_array[OF OpenAIService_configured,
      where rng = "\<lambda>k. 0" and userMessage = "''make me a drink''" and inventory = "[]"
      and api = "\<lambda>req. ContentParsed (JObj [(''recipes'', JArr
           [JObj [(''name'', JStr ''Nameless''), (''glass'', JStr ''coupe'')],
            JObj [(''name'', JStr ''Mule''), (''glass'', JStr ''mug''),
                  (''ingredients'', JStr ''Vodka''), (''instructions'', JStr ''Stir'')]])])"
      and parsed = "JObj [(''recipes'', JArr
           [JObj [(''name'', JStr ''Nameless''), (''glass'', JStr ''coupe'')],
            JObj [(''name'', JStr ''Mule''), (''glass'', JStr ''mug''),
                  (''ingredients'', JStr ''Vodka''), (''instructions'', JStr ''Stir'')]])]"
      and r = "JObj [(''name'', JStr ''Nameless''), (''glass'', JStr ''coupe'')]"
      and later = "[JObj [(''name'', JStr ''Mule''), (''glass'', JStr ''mug''),
                  (''ingredients'', JStr ''Vodka''), (''instructions'', JStr ''Stir'')]]"]
  by (simp add: OpenAIService_configured fourFields_def present_def fallback_first
      unitDraws_def)
qed

text \<open>C5. For every inventory, the listing in the prompt is the marker
  \<^verbatim>\<open>No inventory available\<close> when the inventory is empty and the comma-joined
  \<^verbatim>\<open>name (category)\<close> entries otherwise; and the system prompt of both operations
  contains the line that introduces the listing, followed by it.\<close>

theorem prompt_inventory_listing:
  "inventoryList inventory = (if inventory = [] then noInventoryMarker else commaJoined inventory)
   \<and> noInventoryMarker = ''No inventory available''
   \<and> sublist (''Available ingredients in their bar: '' @ inventoryList inventory)
        (systemContent (cocktailRequest svc userMessage inventory))
   \<and> sublist (''Available ingredients in their bar: '' @ inventoryList inventory)
        (systemContent (multipleRequest svc userMessage inventory count))"
proof -
  have a: "sublist (''Available ingredients in their bar: '' @ l) (singlePrompt l)" for l
    unfolding singlePrompt_def withNewlines_def by (rule line_in_join) simp
  have b: "sublist (''Available ingredients in their bar: '' @ l) (multiplePrompt n l)" for l n
    unfolding multiplePrompt_def withNewlines_def by (rule line_in_join) simp
  have c: "sublist (''Available ingredients in their bar: '' @ l) (diversePrompt n l)" for l n
    unfolding diversePrompt_def withNewlines_def by (rule line_in_join) simp
  show ?thesis
    using a b c inventoryList_shape
    by (simp add: cocktailRequest_def multipleRequest_def noInventoryMarker_def)
qed

text \<open>C7. Saving a suggestion by the save action into an opened store and reloading the
  recipes yields a row whose name, ingredients, instructions and glass are the
  suggestion's and whose source is \<^verbatim>\<open>AI Generated\<close>; the rows stored before are all
  still there.\<close>

theorem saved_suggestion_reloads:
  assumes "db svc = Some d"
  shows "\<exists>rows. getAllRecipes (snd (handleSaveRecipe s currentDate svc)) = Inr rows
     \<and> (\<exists>r \<in> set rows.
           recipe_name r = name s \<and> recipe_ingredients r = ingredients s
         \<and> recipe_instructions r = instructions s \<and> recipe_glass r = glass s
         \<and> recipe_source r = ''AI Generated'' \<and> recipe_dateAdded r = currentDate
         \<and> recipe_id r = recipesSeq d + 1)
     \<and> length rows = Suc (length (recipesTable d))
     \<and> set (recipesTable d) \<subseteq> set rows"
  using assms
  by (auto simp: handleSaveRecipe_def addRecipe_def getAllRecipes_def Let_def
      RecipeData.extend_def Recipe.fields_def set_insort_key)

text \<open>Witness for C7: the Mojito saved into an empty store is the one row of the
  reload.\<close>

theorem saved_suggestion_reloads_witness:
  "db (init \<lparr>recipesTable = [], recipesSeq = 0\<rparr> \<lparr>db = None\<rparr>) = Some \<lparr>recipesTable = [], recipesSeq = 0\<rparr>
   \<and> map (\<lambda>r. (recipe_name r, recipe_glass r, recipe_source r))
        (projr (getAllRecipes (snd (handleSaveRecipe mojito ''2025-06-01''
           (init \<lparr>recipesTable = [], recipesSeq = 0\<rparr> \<lparr>db = None\<rparr>)))))
      = [(''Mojito'', ''highball'', ''AI Generated'')]"
proof -
  have d: "db (init \<lparr>recipesTable = [], recipesSeq = 0\<rparr> \<lparr>db = None\<rparr>) = Some \<lparr>recipesTable = [], recipesSeq = 0\<rparr>"
    by (simp add: init_def)
  from saved_suggestion_reloads[OF d, of mojito "''2025-06-01''"]
  obtain rows r where rows: "getAllRecipes (snd (handleSaveRecipe mojito ''2025-06-01''
           (init \<lparr>recipesTable = [], recipesSeq = 0\<rparr> \<lparr>db = None\<rparr>))) = Inr rows"
    and r: "r \<in> set rows" "recipe_name r = name mojito" "recipe_glass r = glass mojito"
      "recipe_source r = ''AI Generated''"
    and len: "length rows = Suc 0"
    by auto
  from len r(1) have "rows = [r]" by (cases rows) auto
  with rows r d show ?thesis by (simp add: mojito_def)
qed

text \<open>C3. For every request, the resolved count is the number \<^verbatim>\<open>parseInt\<close> reads from
  the digits of the match when the numeric pattern matches (and the pattern matches
  exactly when digits, optional white space and one of the four words follow one
  another somewhere in the request), otherwise 3 when a plural keyword occurs in the
  lower-cased request, otherwise 1. The count the engine works with is that count
  clamped, and lies between 1 and 5: in \<^verbatim>\<open>generateCocktailRecipe\<close> it is
  \<open>actualCount\<close>, which chooses the prompt of the request and is the count that prompt
  names; in \<^verbatim>\<open>generateMultipleRecipes\<close> it is \<open>clampCount count\<close>, the count its
  prompt names. \<^verbatim>\<open>parseInt\<close> reads digits below 2 to the power 53 back exactly, and
  rounds above as a double does.\<close>

theorem resolved_count_policy:
  "(case numberMatch userMessage of
      Some ds \<Rightarrow> patternMatch userMessage ds \<and> requestedCount userMessage = parseInt ds
    | None \<Rightarrow> \<not> patternOccurs userMessage
        \<and> requestedCount userMessage = (if requestsMultiple userMessage then 3 else 1))
   \<and> requestsMultiple userMessage =
       (\<exists>keyword \<in> set multipleRecipeKeywords. sublist keyword (toLowerCase userMessage))
   \<and> enat (nat (actualCount userMessage)) = min (max (requestedCount userMessage) 1) 5
   \<and> 1 \<le> actualCount userMessage \<and> actualCount userMessage \<le> 5
   \<and> systemContent (cocktailRequest svc userMessage inventory) =
       (if requestsMultiple userMessage \<or> actualCount userMessage > 1
        then multiplePrompt (actualCount userMessage) (inventoryList inventory)
        else singlePrompt (inventoryList inventory))
   \<and> clampCount count = min (max count 1) 5
   \<and> 1 \<le> clampCount count \<and> clampCount count \<le> 5
   \<and> systemContent (multipleRequest svc userMessage inventory count)
       = diversePrompt (clampCount count) (inventoryList inventory)
   \<and> (n < 2 ^ 53 \<longrightarrow> parseInt (natToString n) = enat n)
   \<and> parseInt ''9007199254740993'' = 9007199254740992"
proof -
  have match: "case numberMatch userMessage of
      Some ds \<Rightarrow> patternMatch userMessage ds \<and> requestedCount userMessage = parseInt ds
    | None \<Rightarrow> \<not> patternOccurs userMessage
        \<and> requestedCount userMessage = (if requestsMultiple userMessage then 3 else 1)"
  proof (cases "numberMatch userMessage")
    case None
    then have "\<not> patternOccurs userMessage"
      using numberMatch_occurs[of userMessage] by simp
    with None show ?thesis by (simp add: requestedCount_def)
  next
    case (Some ds)
    then have "patternMatch userMessage ds" by (rule numberMatch_sound)
    with Some show ?thesis by (simp add: requestedCount_def)
  qed
  have actual: "enat (nat (actualCount userMessage)) = min (max (requestedCount userMessage) 1) 5"
    "1 \<le> actualCount userMessage \<and> actualCount userMessage \<le> 5"
    unfolding actualCount_def by (rule clampNumber_finite, rule clampNumber_range)
  have requests: "systemContent (cocktailRequest svc userMessage inventory) =
       (if requestsMultiple userMessage \<or> actualCount userMessage > 1
        then multiplePrompt (actualCount userMessage) (inventoryList inventory)
        else singlePrompt (inventoryList inventory))"
    "systemContent (multipleRequest svc userMessage inventory count)
       = diversePrompt (clampCount count) (inventoryList inventory)"
    by (simp_all add: cocktailRequest_def multipleRequest_def)
  have clamp: "clampCount count = min (max count 1) 5"
    "1 \<le> clampCount count \<and> clampCount count \<le> 5"
    by (simp_all add: clampCount_def)
  have small: "n < 2 ^ 53 \<longrightarrow> parseInt (natToString n) = enat n"
    using parseInt_natToString[of n] by blast
  show ?thesis
    using match requestsMultiple_keyword[of userMessage] actual(1)
      actual(2)[THEN conjunct1] actual(2)[THEN conjunct2] requests(1)
      clamp(1) clamp(2)[THEN conjunct1] clamp(2)[THEN conjunct2] requests(2)
      small parseInt_rounds
    by (intro conjI) assumption+
qed

text \<open>Witness for C3: \<^verbatim>\<open>12 Drinks please\<close> matches with the digits \<^verbatim>\<open>12\<close>, which
  \<^verbatim>\<open>parseInt\<close> reads as 12 and the clamp brings to 5.\<close>

theorem resolved_count_policy_witness:
  "(12::nat) < 2 ^ 53
   \<and> numberMatch ''12 Drinks please'' = Some ''12''
   \<and> parseInt ''12'' = 12
   \<and> requestedCount ''12 Drinks please'' = 12
   \<and> actualCount ''12 Drinks please'' = 5"
proof -
  have m: "numberMatch ''12 Drinks please'' = Some ''12''" by code_simp
  have s: "natToString 12 = ''12''" by code_simp
  have p: "parseInt ''12'' = 12"
    using resolved_count_policy[where n = 12] s by (simp add: numeral_eq_enat)
  have r: "requestedCount ''12 Drinks please'' = 12"
    using resolved_count_policy[where userMessage = "''12 Drinks please''"] m p
    by (simp del: numberMatch.simps)
  have "actualCount ''12 Drinks please'' = 5"
    unfolding actualCount_def r by (simp add: clampNumber_def numeral_eq_enat one_enat_def)
  with m p r show ?thesis by simp
qed

text \<open>C2, as the claim states it, fails: in \<^verbatim>\<open>Give me 2 margarita cocktails\<close> the
  digit is followed by \<^verbatim>\<open>margarita\<close>, not by one of the four words, so the pattern
  does not match and no count of 2 is extracted, neither by the engine nor by the
  screen.\<close>

theorem two_margaritas_extract_no_count:
  "numberMatch ''Give me 2 margarita cocktails'' = None
   \<and> requestedCount ''Give me 2 margarita cocktails'' \<noteq> 2
   \<and> handleSendRoute ''Give me 2 margarita cocktails'' \<noteq> ManyRecipes 2"
  by (simp add: two_margaritas_no_match two_margaritas_count two_margaritas_route
      del: numberMatch.simps)

text \<open>C2, amended. For \<^verbatim>\<open>Give me 2 margarita cocktails\<close> the numeric pattern does not
  match, the plural flag is true (\<^verbatim>\<open>cocktails\<close>), so the count resolves to the plural
  default 3: the screen calls \<^verbatim>\<open>generateMultipleRecipes\<close> with 3 and the prompt asks
  for 3 recipes. Every complete recipe of the response is returned with a glass outside
  the valid set rewritten to \<^verbatim>\<open>rocks\<close>.\<close>

theorem two_margaritas_resolve_to_three:
  "\<not> patternOccurs ''Give me 2 margarita cocktails''
   \<and> screenRequestsMultiple ''Give me 2 margarita cocktails''
   \<and> requestsMultiple ''Give me 2 margarita cocktails''
   \<and> handleSendRoute ''Give me 2 margarita cocktails'' = ManyRecipes 3
   \<and> actualCount ''Give me 2 margarita cocktails'' = 3
   \<and> prefix ''You are an expert mixologist and cocktail creator. Create 3 different and diverse cocktail recipes''
         (systemContent (multipleRequest svc ''Give me 2 margarita cocktails'' inventory 3))
   \<and> (isConfigured svc
        \<and> api (multipleRequest svc ''Give me 2 margarita cocktails'' inventory 3) = ContentParsed parsed
        \<and> getProp parsed ''recipes'' = Inr (JArr rs)
        \<and> JNull \<notin> set rs \<and> JUndefined \<notin> set rs \<and> filter fourFields rs \<noteq> []
      \<longrightarrow> generateMultipleRecipes svc api rng ''Give me 2 margarita cocktails'' inventory 3
            = map rewritten (filter fourFields rs))
   \<and> (fourFields r \<longrightarrow>
         glassOf (rewritten r) = (if glassOf r \<in> closedGlassSet then glassOf r else JStr ''rocks''))"
proof -
  have "\<not> patternOccurs ''Give me 2 margarita cocktails''"
    using numberMatch_occurs[of "''Give me 2 margarita cocktails''"] two_margaritas_no_match by simp
  moreover have "actualCount ''Give me 2 margarita cocktails'' = 3"
    by (simp add: actualCount_def two_margaritas_count clampNumber_def numeral_eq_enat
        one_enat_def)
  moreover have "prefix ''You are an expert mixologist and cocktail creator. Create 3 different and diverse cocktail recipes''
         (systemContent (multipleRequest svc ''Give me 2 margarita cocktails'' inventory 3))"
    using diversePrompt_opening[of 3 "inventoryList inventory"]
    by (simp add: multipleRequest_def clampCount_def numberToString_3)
  ultimately show ?thesis
    using two_margaritas_screen_plural two_margaritas_plural two_margaritas_route
    by (simp add: generateMultipleRecipes_def multipleAttempt_parsed glass_rewritten)
qed

text \<open>Witness for C2: a response with one complete recipe, served in a mug.\<close>

theorem two_margaritas_resolve_to_three_witness:
  "isConfigured OpenAIService
   \<and> fourFields (JObj [(''name'', JStr ''Margarita''), (''glass'', JStr ''mug''),
                  (''ingredients'', JStr ''Tequila''), (''instructions'', JStr ''Shake'')])
   \<and> generateMultipleRecipes OpenAIService
        (\<lambda>req. ContentParsed (JObj [(''recipes'', JArr
           [JObj [(''name'', JStr ''Margarita''), (''glass'', JStr ''mug''),
                  (''ingredients'', JStr ''Tequila''), (''instructions'', JStr ''Shake'')]])]))
        (\<lambda>k. 0) ''Give me 2 margarita cocktails'' [] 3
      = [JObj [(''name'', JStr ''Margarita''), (''glass'', JStr ''rocks''),
               (''ingredients'', JStr ''Tequila''), (''instructions'', JStr ''Shake'')]]
   \<and> handleSendRoute ''Give me 2 margarita cocktails'' = ManyRecipes 3"
  using two_margaritas_resolve_to_three[where svc = OpenAIService and rng = "\<lambda>k. 0" and inventory = "[]"
      and api = "\<lambda>req. ContentParsed (JObj [(''recipes'', JArr
           [JObj [(''name'', JStr ''Margarita''), (''glass'', JStr ''mug''),
                  (''ingredients'', JStr ''Tequila''), (''instructions'', JStr ''Shake'')]])])"
      and parsed = "JObj [(''recipes'', JArr
           [JObj [(''name'', JStr ''Margarita''), (''glass'', JStr ''mug''),
                  (''ingredients'', JStr ''Tequila''), (''instructions'', JStr ''Shake'')]])]"
      and rs = "[JObj [(''name'', JStr ''Margarita''), (''glass'', JStr ''mug''),
                  (''ingredients'', JStr ''Tequila''), (''instructions'', JStr ''Shake'')]]"
      and r = "JObj [(''name'', JStr ''Margarita''), (''glass'', JStr ''mug''),
                  (''ingredients'', JStr ''Tequila''), (''instructions'', JStr ''Shake'')]"]
  by (simp add: OpenAIService_configured fourFields_def present_def glassOf_def closedGlassSet_def)

end
